theory Spec2Isabelle
  imports Complex_Main "HOL-Library.AList"
begin

section \<open>Data model\<close>

text \<open>
  The services of \<^verbatim>\<open>ai-context/02-DEALS.md\<close> run against a Prisma store. A table is
  modelled as the list of its rows, \<^verbatim>\<open>findUnique({ where: { id } })\<close> as the first row
  with that id, and \<^verbatim>\<open>update({ where: { id }, data })\<close> as a patch applied to the rows
  with that id. A JavaScript \<^verbatim>\<open>number\<close> and a Prisma \<^verbatim>\<open>Decimal\<close> are exact rationals
  here (no binary rounding, no rounding to the column's scale); an \<^verbatim>\<open>Int\<close> column is an
  \<open>int\<close>; a \<^verbatim>\<open>Date\<close> is its \<^verbatim>\<open>getTime()\<close>, milliseconds as an \<open>int\<close>. Every
  operation reads the clock through its first argument \<open>now\<close>, one reading per call.
  Records list the columns the services read or write; the other columns of the schema
  live in the records' extension part.
\<close>

type_synonym ident = string
type_synonym timestamp = int

record pipelineStage =
  stage_id :: ident
  stage_pipelineId :: ident
  stage_name :: string
  stage_probability :: int
  sortOrder :: int
  rottenDays :: "int option"

record user =
  user_id :: ident
  user_name :: "string option"

record deal =
  deal_id :: ident
  deal_name :: string
  deal_value :: rat
  currency :: string
  probability :: int
  pipelineId :: ident
  stageId :: ident
  expectedCloseDate :: timestamp
  actualCloseDate :: "timestamp option"
  contactId :: ident
  ownerId :: ident
  updatedAt :: timestamp
  stageChangedAt :: timestamp

record dealProductInput =
  productId :: ident
  name :: string
  quantity :: int
  unitPrice :: rat
  discount :: "rat option"

record dealProduct =
  dp_dealId :: ident
  dp_productId :: ident
  dp_name :: string
  dp_quantity :: int
  dp_unitPrice :: rat
  totalPrice :: rat
  dp_discount :: rat

datatype lifecycleStage =
  SUBSCRIBER | LEAD | MARKETING_QUALIFIED | SALES_QUALIFIED | OPPORTUNITY | CUSTOMER | EVANGELIST

datatype contactStatus =
  ST_LEAD | ST_PROSPECT | ST_QUALIFIED | ST_CUSTOMER | ST_INACTIVE | ST_UNQUALIFIED

record contact =
  contact_id :: ident
  status :: contactStatus
  lifecycleStage :: lifecycleStage
  lastContactedAt :: "timestamp option"
  contact_deals :: "ident list option"
  contact_updatedAt :: timestamp

text \<open>
  An activity keeps the type and the metadata of the logged event; the description
  string, formatted from the same data, is left out.
\<close>

datatype activity =
  DEAL_STAGE_CHANGED ident ident "string option" string "string option"
| DEAL_VALUE_CHANGED ident ident rat rat nat
| LIFECYCLE_CHANGE ident lifecycleStage lifecycleStage "string option"

record db =
  deals :: "deal list"
  pipelineStages :: "pipelineStage list"
  users :: "user list"
  dealProducts :: "dealProduct list"
  contacts :: "contact list"
  activities :: "activity list"

datatype crmError = CRMError string string nat

fun code :: "crmError \<Rightarrow> string" where
  "code (CRMError message c statusCode) = c"

definition NotFoundError :: "string \<Rightarrow> crmError" where
  "NotFoundError resource = CRMError (resource @ '' not found'') ''NOT_FOUND'' 404"

definition msPerDay :: int where
  "msPerDay = 1000 * 60 * 60 * 24"

text \<open>\<^verbatim>\<open>if (s)\<close> on an optional string: \<^verbatim>\<open>undefined\<close> and the empty string are falsy.\<close>

fun truthy :: "string option \<Rightarrow> bool" where
  "truthy None = False"
| "truthy (Some s) = (s \<noteq> [])"

definition updateWhere :: "('a \<Rightarrow> bool) \<Rightarrow> ('a \<Rightarrow> 'a) \<Rightarrow> 'a list \<Rightarrow> 'a list" where
  "updateWhere P patch rows = map (\<lambda>r. if P r then patch r else r) rows"

definition findDealById :: "db \<Rightarrow> ident \<Rightarrow> deal option" where
  "findDealById d i = find (\<lambda>r. deal_id r = i) (deals d)"

definition findStageById :: "db \<Rightarrow> ident \<Rightarrow> pipelineStage option" where
  "findStageById d i = find (\<lambda>r. stage_id r = i) (pipelineStages d)"

definition findUserById :: "db \<Rightarrow> ident \<Rightarrow> user option" where
  "findUserById d i = find (\<lambda>r. user_id r = i) (users d)"

definition findContactById :: "db \<Rightarrow> ident \<Rightarrow> contact option" where
  "findContactById d i = find (\<lambda>r. contact_id r = i) (contacts d)"

section \<open>DealService\<close>

text \<open>
  \<^verbatim>\<open>moveDealToStage\<close>: both lookups can fail with NotFound. The patch sets the stage,
  the stage's probability and \<^verbatim>\<open>stageChangedAt\<close>; the two conditional spreads add
  \<^verbatim>\<open>actualCloseDate\<close> only for a stage named Closed Won or Closed Lost.
  \<^verbatim>\<open>BaseService.update\<close> adds \<^verbatim>\<open>updatedAt\<close>.
\<close>

definition moveDealPatch :: "timestamp \<Rightarrow> ident \<Rightarrow> pipelineStage \<Rightarrow> deal \<Rightarrow> deal" where
  "moveDealPatch now sid newStage d =
     d\<lparr> stageId := sid,
        probability := stage_probability newStage,
        stageChangedAt := now,
        actualCloseDate :=
          (if stage_name newStage = ''Closed Won'' then Some now
           else if stage_name newStage = ''Closed Lost'' then Some now
           else actualCloseDate d),
        updatedAt := now \<rparr>"

definition moveDealToStage ::
  "timestamp \<Rightarrow> db \<Rightarrow> ident \<Rightarrow> ident \<Rightarrow> string option \<Rightarrow> crmError + (deal \<times> db)" where
  "moveDealToStage now d dealId sid reason =
     (case findDealById d dealId of
        None \<Rightarrow> Inl (NotFoundError ''Deal'')
      | Some deal \<Rightarrow>
          (case findStageById d sid of
             None \<Rightarrow> Inl (NotFoundError ''Pipeline stage'')
           | Some newStage \<Rightarrow>
               (let oldStage = findStageById d (stageId deal);
                    updated = moveDealPatch now sid newStage deal;
                    d1 = d\<lparr> deals :=
                           updateWhere (\<lambda>r. deal_id r = dealId) (moveDealPatch now sid newStage) (deals d) \<rparr>;
                    d2 = d1\<lparr> activities := activities d1 @
                           [DEAL_STAGE_CHANGED dealId (contactId deal)
                              (map_option stage_name oldStage) (stage_name newStage) reason] \<rparr>
                in Inr (updated, d2))))"

text \<open>
  \<^verbatim>\<open>calculateDealValue\<close>: the \<^verbatim>\<open>reduce\<close> is a left fold from 0;
  \<^verbatim>\<open>product.discount || 0\<close> reads a missing discount as 0.
\<close>

fun discountOr0 :: "rat option \<Rightarrow> rat" where
  "discountOr0 None = 0"
| "discountOr0 (Some x) = x"

definition calculateDealValue :: "dealProductInput list \<Rightarrow> rat" where
  "calculateDealValue products =
     foldl (\<lambda>total product.
              let subtotal = of_int (quantity product) * unitPrice product;
                  disc = subtotal * discountOr0 (discount product) / 100
              in total + (subtotal - disc)) 0 products"

text \<open>
  \<^verbatim>\<open>updateDealValue\<close>: inside one transaction the deal's product rows are deleted, one
  row per input item is created, the deal's value is updated (\<^verbatim>\<open>@updatedAt\<close> of the
  schema sets \<^verbatim>\<open>updatedAt\<close>) and the change is logged. The generated row ids and the
  foreign keys of the store are not modelled.
\<close>

definition toDealProduct :: "ident \<Rightarrow> dealProductInput \<Rightarrow> dealProduct" where
  "toDealProduct dealId p =
     \<lparr> dp_dealId = dealId,
       dp_productId = productId p,
       dp_name = name p,
       dp_quantity = quantity p,
       dp_unitPrice = unitPrice p,
       totalPrice = of_int (quantity p) * unitPrice p * ((100 - discountOr0 (discount p)) / 100),
       dp_discount = discountOr0 (discount p) \<rparr>"

definition productsOfDeal :: "db \<Rightarrow> ident \<Rightarrow> dealProduct list" where
  "productsOfDeal d dealId = filter (\<lambda>r. dp_dealId r = dealId) (dealProducts d)"

definition updateDealValue ::
  "timestamp \<Rightarrow> db \<Rightarrow> ident \<Rightarrow> dealProductInput list \<Rightarrow> crmError + (deal \<times> db)" where
  "updateDealValue now d dealId products =
     (case findDealById d dealId of
        None \<Rightarrow> Inl (NotFoundError ''Deal'')
      | Some deal \<Rightarrow>
          (let newValue = calculateDealValue products;
               d1 = d\<lparr> dealProducts := filter (\<lambda>r. dp_dealId r \<noteq> dealId) (dealProducts d) \<rparr>;
               d2 = d1\<lparr> dealProducts := dealProducts d1 @ map (toDealProduct dealId) products \<rparr>;
               patch = (\<lambda>r. r\<lparr> deal_value := newValue, updatedAt := now \<rparr>);
               d3 = d2\<lparr> deals := updateWhere (\<lambda>r. deal_id r = dealId) patch (deals d2) \<rparr>;
               d4 = d3\<lparr> activities := activities d3 @
                      [DEAL_VALUE_CHANGED dealId (contactId deal) (deal_value deal) newValue
                         (length products)] \<rparr>
           in Inr (patch deal, d4)))"

text \<open>
  \<^verbatim>\<open>getRottenDeals\<close>: the query keeps open deals whose stage has a non-null
  \<^verbatim>\<open>rottenDays\<close>, of the given owner when \<^verbatim>\<open>if (ownerId)\<close> holds. The filter then
  evaluates \<^verbatim>\<open>deal.stage.rottenDays && days > deal.stage.rottenDays\<close>: a null and a
  zero \<^verbatim>\<open>rottenDays\<close> are both falsy.
\<close>

definition daysSinceStageChange :: "timestamp \<Rightarrow> deal \<Rightarrow> int" where
  "daysSinceStageChange now deal = (now - stageChangedAt deal) div msPerDay"

definition rottenWhere :: "db \<Rightarrow> string option \<Rightarrow> deal \<Rightarrow> bool" where
  "rottenWhere d owner deal =
     (actualCloseDate deal = None
      \<and> (case findStageById d (stageId deal) of
            None \<Rightarrow> False
          | Some stage \<Rightarrow> rottenDays stage \<noteq> None)
      \<and> (if truthy owner then Some (ownerId deal) = owner else True))"

definition isRotten :: "timestamp \<Rightarrow> db \<Rightarrow> deal \<Rightarrow> bool" where
  "isRotten now d deal =
     (case findStageById d (stageId deal) of
        None \<Rightarrow> False
      | Some stage \<Rightarrow>
          (case rottenDays stage of
             None \<Rightarrow> False
           | Some r \<Rightarrow> r \<noteq> 0 \<and> daysSinceStageChange now deal > r))"

definition getRottenDeals :: "timestamp \<Rightarrow> db \<Rightarrow> string option \<Rightarrow> deal list" where
  "getRottenDeals now d owner = filter (isRotten now d) (filter (rottenWhere d owner) (deals d))"

section \<open>ForecastingService\<close>

datatype forecastPeriod = THIS_MONTH | NEXT_MONTH | THIS_QUARTER | NEXT_QUARTER

record forecastOptions =
  opt_ownerId :: "string option"
  opt_pipelineId :: "string option"

record stageMetrics =
  sm_count :: nat
  sm_totalValue :: rat
  sm_weightedValue :: rat
  averageProbability :: rat

record ownerMetrics =
  om_count :: nat
  om_totalValue :: rat
  om_weightedValue :: rat

text \<open>
  The two breakdowns are JavaScript objects used as dictionaries: association lists in
  insertion order, one entry per key. Keys that are array indices (which a JavaScript
  object lists first) or names of inherited properties are not treated apart.
\<close>

record forecast =
  period :: forecastPeriod
  totalValue :: rat
  weightedValue :: rat
  dealCount :: nat
  confidence :: int
  byStage :: "(string \<times> stageMetrics) list"
  byOwner :: "(string \<times> ownerMetrics) list"

text \<open>\<^verbatim>\<open>Math.round\<close> rounds to the nearest integer, a half towards plus infinity.\<close>

definition js_round :: "rat \<Rightarrow> int" where
  "js_round x = \<lfloor>x + 1 / 2\<rfloor>"

text \<open>
  \<^verbatim>\<open>calculateConfidence\<close>: per deal, the four \<^verbatim>\<open>if\<close> statements run one after the
  other, each multiplying the same variable; the result is capped at 100 and added to the
  score.
\<close>

definition daysSinceUpdate :: "timestamp \<Rightarrow> deal \<Rightarrow> int" where
  "daysSinceUpdate now deal = (now - updatedAt deal) div msPerDay"

definition dealConfidence :: "timestamp \<Rightarrow> deal \<Rightarrow> rat" where
  "dealConfidence now deal =
     (let days = daysSinceUpdate now deal;
          c0 = of_int (probability deal);
          c1 = (if days > 7 then c0 * (8 / 10) else c0);
          c2 = (if days > 14 then c1 * (7 / 10) else c1);
          c3 = (if days > 30 then c2 * (5 / 10) else c2);
          c4 = (if days \<le> 2 then c3 * (11 / 10) else c3)
      in min c4 100)"

definition calculateConfidence :: "timestamp \<Rightarrow> deal list \<Rightarrow> int" where
  "calculateConfidence now ds =
     (if length ds = 0 then 0
      else js_round
             (fold (\<lambda>deal confidenceScore. confidenceScore + dealConfidence now deal) ds 0
                / of_nat (length ds)))"

text \<open>
  The query of \<^verbatim>\<open>generateForecast\<close>: open deals expected to close between the two dates
  (both bounds included), of the owner and of the pipeline when the option is truthy; each
  row comes with its stage and its owner (\<^verbatim>\<open>include\<close>). Both relations are required by
  the schema, so a deal whose stage or owner does not resolve yields no row.
\<close>

type_synonym forecastRow = "deal \<times> pipelineStage \<times> user"

definition forecastWhere :: "timestamp \<Rightarrow> timestamp \<Rightarrow> forecastOptions \<Rightarrow> deal \<Rightarrow> bool" where
  "forecastWhere startDate endDate options deal =
     (startDate \<le> expectedCloseDate deal \<and> expectedCloseDate deal \<le> endDate
      \<and> actualCloseDate deal = None
      \<and> (if truthy (opt_ownerId options) then Some (ownerId deal) = opt_ownerId options else True)
      \<and> (if truthy (opt_pipelineId options) then Some (pipelineId deal) = opt_pipelineId options
          else True))"

definition includeStageOwner :: "db \<Rightarrow> deal \<Rightarrow> forecastRow option" where
  "includeStageOwner d deal =
     (case findStageById d (stageId deal) of
        None \<Rightarrow> None
      | Some stage \<Rightarrow>
          (case findUserById d (ownerId deal) of
             None \<Rightarrow> None
           | Some owner \<Rightarrow> Some (deal, stage, owner)))"

definition forecastDeals :: "timestamp \<Rightarrow> timestamp \<Rightarrow> forecastOptions \<Rightarrow> db \<Rightarrow> forecastRow list" where
  "forecastDeals startDate endDate options d =
     List.map_filter (includeStageOwner d) (filter (forecastWhere startDate endDate options) (deals d))"

text \<open>\<^verbatim>\<open>deal.owner.name || 'Unassigned'\<close>: a missing and an empty name are falsy.\<close>

definition ownerNameOf :: "user \<Rightarrow> string" where
  "ownerNameOf owner =
     (case user_name owner of
        None \<Rightarrow> ''Unassigned''
      | Some n \<Rightarrow> if n \<noteq> [] then n else ''Unassigned'')"

text \<open>The body of \<^verbatim>\<open>deals.forEach\<close> in \<^verbatim>\<open>generateForecast\<close>.\<close>

definition addDeal :: "forecastRow \<Rightarrow> forecast \<Rightarrow> forecast" where
  "addDeal row f =
     (case row of (deal, stage, owner) \<Rightarrow>
        (let v = deal_value deal;
             w = v * (of_int (probability deal) / 100);
             stageName = stage_name stage;
             bs0 = (if map_of (byStage f) stageName = None
                    then AList.update stageName
                           \<lparr> sm_count = 0, sm_totalValue = 0, sm_weightedValue = 0,
                             averageProbability = 0 \<rparr> (byStage f)
                    else byStage f);
             bs1 = AList.map_entry stageName
                     (\<lambda>m. m\<lparr> sm_count := sm_count m + 1,
                              sm_totalValue := sm_totalValue m + v,
                              sm_weightedValue := sm_weightedValue m + w \<rparr>) bs0;
             ownerName = ownerNameOf owner;
             bo0 = (if map_of (byOwner f) ownerName = None
                    then AList.update ownerName
                           \<lparr> om_count = 0, om_totalValue = 0, om_weightedValue = 0 \<rparr> (byOwner f)
                    else byOwner f);
             bo1 = AList.map_entry ownerName
                     (\<lambda>m. m\<lparr> om_count := om_count m + 1,
                              om_totalValue := om_totalValue m + v,
                              om_weightedValue := om_weightedValue m + w \<rparr>) bo0
         in f\<lparr> totalValue := totalValue f + v,
                weightedValue := weightedValue f + w,
                byStage := bs1,
                byOwner := bo1 \<rparr>))"

text \<open>
  The second pass sets each stage bucket's average probability from the deals of that
  stage name. A bucket exists only for a stage name some row has, so the divisor is
  positive.
\<close>

definition setAverage :: "forecastRow list \<Rightarrow> string \<times> stageMetrics \<Rightarrow> string \<times> stageMetrics" where
  "setAverage rows e =
     (case e of (stageName, m) \<Rightarrow>
        (let stageDeals = filter (\<lambda>(d, s, u). stage_name s = stageName) rows
         in (stageName,
             m\<lparr> averageProbability :=
                  of_int (foldl (\<lambda>sum (d, s, u). sum + probability d) 0 stageDeals)
                    / of_nat (length stageDeals) \<rparr>)))"

text \<open>
  \<^verbatim>\<open>getPeriodDates\<close> is not part of the sources: it is a parameter, from a period to
  its start and end dates.
\<close>

definition generateForecast ::
  "(forecastPeriod \<Rightarrow> timestamp \<times> timestamp) \<Rightarrow> timestamp \<Rightarrow> db \<Rightarrow> forecastPeriod
     \<Rightarrow> forecastOptions \<Rightarrow> forecast" where
  "generateForecast getPeriodDates now d p options =
     (case getPeriodDates p of (startDate, endDate) \<Rightarrow>
        (let rows = forecastDeals startDate endDate options d;
             f0 = \<lparr> period = p, totalValue = 0, weightedValue = 0, dealCount = length rows,
                    confidence = calculateConfidence now (map fst rows),
                    byStage = [], byOwner = [] \<rparr>;
             f1 = fold addDeal rows f0
         in f1\<lparr> byStage := map (setAverage rows) (byStage f1) \<rparr>))"

text \<open>
  The inequality of a forecast's buckets: in every stage bucket and in every owner bucket
  the weighted value is at most the total value.
\<close>

definition bucketsOk :: "forecast \<Rightarrow> bool" where
  "bucketsOk f =
     ((\<forall>e \<in> set (byStage f). sm_weightedValue (snd e) \<le> sm_totalValue (snd e))
      \<and> (\<forall>e \<in> set (byOwner f). om_weightedValue (snd e) \<le> om_totalValue (snd e)))"

text \<open>
  \<^verbatim>\<open>getConversionRates\<close>: deals of the pipeline closed between the start date (one
  calendar year before now, computed by the date library and taken as a parameter) and
  now; the pipeline's stages by ascending sort order; one loop round per index
  \<open>i < length stages - 1\<close>, which assigns the entry of the pair \<open>(i, i + 1)\<close> under its
  key. \<^verbatim>\<open>dealPassedThroughStage\<close> is not part of the sources: it is a parameter.
\<close>

record conversionEntry =
  conv_from :: string
  conv_to :: string
  rate :: rat
  conv_deals :: nat

definition conversionKey :: "pipelineStage \<Rightarrow> pipelineStage \<Rightarrow> string" where
  "conversionKey currentStage nextStage = stage_name currentStage @ ''_to_'' @ stage_name nextStage"

definition conversionEntryOf ::
  "(deal \<Rightarrow> ident \<Rightarrow> bool) \<Rightarrow> deal list \<Rightarrow> pipelineStage \<Rightarrow> pipelineStage \<Rightarrow> conversionEntry" where
  "conversionEntryOf dealPassedThroughStage ds currentStage nextStage =
     (let currentStageDeals = filter (\<lambda>d. dealPassedThroughStage d (stage_id currentStage)) ds;
          nextStageDeals = filter (\<lambda>d. dealPassedThroughStage d (stage_id nextStage)) ds;
          r = (if length currentStageDeals > 0
               then (of_nat (length nextStageDeals) / of_nat (length currentStageDeals)) * 100
               else 0)
      in \<lparr> conv_from = stage_name currentStage, conv_to = stage_name nextStage, rate = r,
           conv_deals = length currentStageDeals \<rparr>)"

definition conversionStep ::
  "(deal \<Rightarrow> ident \<Rightarrow> bool) \<Rightarrow> deal list \<Rightarrow> pipelineStage list \<Rightarrow> nat
     \<Rightarrow> (string \<times> conversionEntry) list \<Rightarrow> (string \<times> conversionEntry) list" where
  "conversionStep dealPassedThroughStage ds stages i conversionRates =
     (let currentStage = stages ! i;
          nextStage = stages ! (i + 1)
      in AList.update (conversionKey currentStage nextStage)
           (conversionEntryOf dealPassedThroughStage ds currentStage nextStage) conversionRates)"

definition closedDealsInWindow :: "timestamp \<Rightarrow> timestamp \<Rightarrow> db \<Rightarrow> ident \<Rightarrow> deal list" where
  "closedDealsInWindow startDate endDate d pid =
     filter (\<lambda>deal. pipelineId deal = pid
                    \<and> (case actualCloseDate deal of
                          None \<Rightarrow> False
                        | Some t \<Rightarrow> startDate \<le> t \<and> t \<le> endDate)) (deals d)"

definition stagesOfPipeline :: "db \<Rightarrow> ident \<Rightarrow> pipelineStage list" where
  "stagesOfPipeline d pid = sort_key sortOrder (filter (\<lambda>s. stage_pipelineId s = pid) (pipelineStages d))"

definition getConversionRates ::
  "(deal \<Rightarrow> ident \<Rightarrow> bool) \<Rightarrow> timestamp \<Rightarrow> timestamp \<Rightarrow> db \<Rightarrow> ident
     \<Rightarrow> (string \<times> conversionEntry) list" where
  "getConversionRates dealPassedThroughStage startDate now d pid =
     (let ds = closedDealsInWindow startDate now d pid;
          stages = stagesOfPipeline d pid
      in fold (conversionStep dealPassedThroughStage ds stages) [0 ..< length stages - 1] [])"

text \<open>
  The number of deals that passed through a stage, and the key of the adjacent pair at
  index \<open>i\<close>: the vocabulary of the statements about \<open>getConversionRates\<close>.
\<close>

definition passedCount :: "(deal \<Rightarrow> ident \<Rightarrow> bool) \<Rightarrow> deal list \<Rightarrow> pipelineStage \<Rightarrow> nat" where
  "passedCount dealPassedThroughStage ds stage =
     length (filter (\<lambda>d. dealPassedThroughStage d (stage_id stage)) ds)"

definition pairKey :: "pipelineStage list \<Rightarrow> nat \<Rightarrow> string" where
  "pairKey stages i = conversionKey (stages ! i) (stages ! (i + 1))"

text \<open>
  The entry the specification describes for the adjacent pair at index \<open>i\<close>: the two
  stage names, the rate (count at \<open>i + 1\<close> over count at \<open>i\<close>, times 100, or 0 when
  the count at \<open>i\<close> is 0) and the count at \<open>i\<close>.
\<close>

definition specEntry ::
  "(deal \<Rightarrow> ident \<Rightarrow> bool) \<Rightarrow> deal list \<Rightarrow> pipelineStage list \<Rightarrow> nat \<Rightarrow> conversionEntry" where
  "specEntry dealPassedThroughStage ds stages i =
     \<lparr> conv_from = stage_name (stages ! i),
       conv_to = stage_name (stages ! (i + 1)),
       rate = (if passedCount dealPassedThroughStage ds (stages ! i) = 0 then 0
               else (of_nat (passedCount dealPassedThroughStage ds (stages ! (i + 1)))
                       / of_nat (passedCount dealPassedThroughStage ds (stages ! i))) * 100),
       conv_deals = passedCount dealPassedThroughStage ds (stages ! i) \<rparr>"

section \<open>ContactLifecycleService\<close>

fun progressionMap :: "lifecycleStage \<Rightarrow> lifecycleStage list" where
  "progressionMap SUBSCRIBER = [LEAD]"
| "progressionMap LEAD = [MARKETING_QUALIFIED, SALES_QUALIFIED]"
| "progressionMap MARKETING_QUALIFIED = [SALES_QUALIFIED, LEAD]"
| "progressionMap SALES_QUALIFIED = [OPPORTUNITY, MARKETING_QUALIFIED]"
| "progressionMap OPPORTUNITY = [CUSTOMER, SALES_QUALIFIED]"
| "progressionMap CUSTOMER = [EVANGELIST]"
| "progressionMap EVANGELIST = []"

definition isValidProgression :: "lifecycleStage \<Rightarrow> lifecycleStage \<Rightarrow> bool" where
  "isValidProgression current next = (next \<in> set (progressionMap current))"

text \<open>
  The progression graph as the specification lists it, edge by edge, to compare
  \<open>isValidProgression\<close> with.
\<close>

definition progressionGraph :: "(lifecycleStage \<times> lifecycleStage) set" where
  "progressionGraph =
     {(SUBSCRIBER, LEAD),
      (LEAD, MARKETING_QUALIFIED), (LEAD, SALES_QUALIFIED),
      (MARKETING_QUALIFIED, SALES_QUALIFIED), (MARKETING_QUALIFIED, LEAD),
      (SALES_QUALIFIED, OPPORTUNITY), (SALES_QUALIFIED, MARKETING_QUALIFIED),
      (OPPORTUNITY, CUSTOMER), (OPPORTUNITY, SALES_QUALIFIED),
      (CUSTOMER, EVANGELIST)}"

fun mapLifecycleToStatus :: "lifecycleStage \<Rightarrow> contactStatus" where
  "mapLifecycleToStatus SUBSCRIBER = ST_LEAD"
| "mapLifecycleToStatus LEAD = ST_LEAD"
| "mapLifecycleToStatus MARKETING_QUALIFIED = ST_PROSPECT"
| "mapLifecycleToStatus SALES_QUALIFIED = ST_QUALIFIED"
| "mapLifecycleToStatus OPPORTUNITY = ST_QUALIFIED"
| "mapLifecycleToStatus CUSTOMER = ST_CUSTOMER"
| "mapLifecycleToStatus EVANGELIST = ST_CUSTOMER"

fun lifecycleName :: "lifecycleStage \<Rightarrow> string" where
  "lifecycleName SUBSCRIBER = ''SUBSCRIBER''"
| "lifecycleName LEAD = ''LEAD''"
| "lifecycleName MARKETING_QUALIFIED = ''MARKETING_QUALIFIED''"
| "lifecycleName SALES_QUALIFIED = ''SALES_QUALIFIED''"
| "lifecycleName OPPORTUNITY = ''OPPORTUNITY''"
| "lifecycleName CUSTOMER = ''CUSTOMER''"
| "lifecycleName EVANGELIST = ''EVANGELIST''"

definition InvalidProgression :: "lifecycleStage \<Rightarrow> lifecycleStage \<Rightarrow> crmError" where
  "InvalidProgression currentStage newStage =
     CRMError (''Invalid lifecycle progression from '' @ lifecycleName currentStage
                 @ '' to '' @ lifecycleName newStage) ''INVALID_PROGRESSION'' 400"

definition lifecyclePatch :: "timestamp \<Rightarrow> lifecycleStage \<Rightarrow> contact \<Rightarrow> contact" where
  "lifecyclePatch now newStage c =
     c\<lparr> lifecycleStage := newStage,
        status := mapLifecycleToStatus newStage,
        contact_updatedAt := now \<rparr>"

definition progressLifecycleStage ::
  "timestamp \<Rightarrow> db \<Rightarrow> ident \<Rightarrow> lifecycleStage \<Rightarrow> string option \<Rightarrow> crmError + (contact \<times> db)" where
  "progressLifecycleStage now d cid newStage reason =
     (case findContactById d cid of
        None \<Rightarrow> Inl (NotFoundError ''Contact'')
      | Some c \<Rightarrow>
          (let currentStage = lifecycleStage c
           in if \<not> isValidProgression currentStage newStage
              then Inl (InvalidProgression currentStage newStage)
              else
                (let updated = lifecyclePatch now newStage c;
                     d1 = d\<lparr> contacts :=
                            updateWhere (\<lambda>r. contact_id r = cid) (lifecyclePatch now newStage) (contacts d) \<rparr>;
                     d2 = d1\<lparr> activities := activities d1 @
                            [LIFECYCLE_CHANGE cid currentStage newStage reason] \<rparr>
                 in Inr (updated, d2))))"

text \<open>
  \<^verbatim>\<open>calculateNextActions\<close>: \<^verbatim>\<open>daysSince\<close> is not part of the sources and is a
  parameter. \<^verbatim>\<open>!contact.deals?.length\<close> holds when the relation is not loaded or empty.
\<close>

datatype priority = LOW | MEDIUM | HIGH

record nextAction =
  action_type :: string
  action_priority :: priority
  action_reason :: string

definition calculateNextActions ::
  "(timestamp option \<Rightarrow> int) \<Rightarrow> db \<Rightarrow> ident \<Rightarrow> nextAction list" where
  "calculateNextActions daysSince d cid =
     (case findContactById d cid of
        None \<Rightarrow> []
      | Some c \<Rightarrow>
          (let actions = [];
               daysSinceLastContact = daysSince (lastContactedAt c)
           in case lifecycleStage c of
                LEAD \<Rightarrow>
                  (if daysSinceLastContact > 3
                   then actions @ [\<lparr> action_type = ''FOLLOW_UP_CALL'', action_priority = HIGH,
                                     action_reason = ''New lead needs qualification call'' \<rparr>]
                   else actions)
              | MARKETING_QUALIFIED \<Rightarrow>
                  actions @ [\<lparr> action_type = ''SALES_HANDOFF'', action_priority = HIGH,
                               action_reason = ''Ready for sales qualification'' \<rparr>]
              | SALES_QUALIFIED \<Rightarrow>
                  (if (case contact_deals c of None \<Rightarrow> True | Some ds \<Rightarrow> length ds = 0)
                   then actions @ [\<lparr> action_type = ''CREATE_OPPORTUNITY'', action_priority = MEDIUM,
                                     action_reason = ''Qualified lead needs opportunity'' \<rparr>]
                   else actions)
              | CUSTOMER \<Rightarrow>
                  (if daysSinceLastContact > 30
                   then actions @ [\<lparr> action_type = ''CHECK_IN'', action_priority = LOW,
                                     action_reason = ''Regular customer check-in'' \<rparr>]
                   else actions)
              | _ \<Rightarrow> actions))"

section \<open>Example data\<close>

text \<open>
  A small store used to run the operations on concrete inputs: pipeline \<open>p1\<close> with the
  stages Qualified (rotten after 0 days), Proposal and Closed Won; pipeline \<open>p2\<close> with
  three stages that share one name; an open deal \<open>d1\<close>, a closed deal \<open>d2\<close> and a
  freshly updated deal \<open>d3\<close>.
\<close>

definition exStages :: "pipelineStage list" where
  "exStages =
     [\<lparr> stage_id = ''s1'', stage_pipelineId = ''p1'', stage_name = ''Qualified'',
        stage_probability = 25, sortOrder = 0, rottenDays = Some 0 \<rparr>,
      \<lparr> stage_id = ''s2'', stage_pipelineId = ''p1'', stage_name = ''Proposal'',
        stage_probability = 50, sortOrder = 1, rottenDays = Some 14 \<rparr>,
      \<lparr> stage_id = ''s3'', stage_pipelineId = ''p1'', stage_name = ''Closed Won'',
        stage_probability = 100, sortOrder = 2, rottenDays = None \<rparr>,
      \<lparr> stage_id = ''r1'', stage_pipelineId = ''p2'', stage_name = ''Review'',
        stage_probability = 10, sortOrder = 0, rottenDays = None \<rparr>,
      \<lparr> stage_id = ''r2'', stage_pipelineId = ''p2'', stage_name = ''Review'',
        stage_probability = 20, sortOrder = 1, rottenDays = None \<rparr>,
      \<lparr> stage_id = ''r3'', stage_pipelineId = ''p2'', stage_name = ''Review'',
        stage_probability = 30, sortOrder = 2, rottenDays = None \<rparr>]"

definition exDeal1 :: deal where
  "exDeal1 =
     \<lparr> deal_id = ''d1'', deal_name = ''Renewal'', deal_value = 10000, currency = ''USD'',
       probability = 50, pipelineId = ''p1'', stageId = ''s1'',
       expectedCloseDate = 10 * msPerDay, actualCloseDate = None, contactId = ''c1'',
       ownerId = ''u1'', updatedAt = 0, stageChangedAt = 0 \<rparr>"

definition exDeal2 :: deal where
  "exDeal2 =
     \<lparr> deal_id = ''d2'', deal_name = ''Upsell'', deal_value = 500, currency = ''USD'',
       probability = 100, pipelineId = ''p1'', stageId = ''s3'',
       expectedCloseDate = 2 * msPerDay, actualCloseDate = Some (3 * msPerDay), contactId = ''c1'',
       ownerId = ''u1'', updatedAt = 3 * msPerDay, stageChangedAt = 3 * msPerDay \<rparr>"

definition exDeal3 :: deal where
  "exDeal3 =
     \<lparr> deal_id = ''d3'', deal_name = ''Pilot'', deal_value = 2000, currency = ''USD'',
       probability = 100, pipelineId = ''p1'', stageId = ''s2'',
       expectedCloseDate = 12 * msPerDay, actualCloseDate = None, contactId = ''c1'',
       ownerId = ''u1'', updatedAt = 5 * msPerDay, stageChangedAt = 5 * msPerDay \<rparr>"

definition exContact :: contact where
  "exContact =
     \<lparr> contact_id = ''c1'', status = ST_LEAD, lifecycleStage = LEAD, lastContactedAt = None,
       contact_deals = None, contact_updatedAt = 0 \<rparr>"

definition exDb :: db where
  "exDb =
     \<lparr> deals = [exDeal1, exDeal2, exDeal3],
       pipelineStages = exStages,
       users = [\<lparr> user_id = ''u1'', user_name = Some ''Ada'' \<rparr>],
       dealProducts =
         [\<lparr> dp_dealId = ''d1'', dp_productId = ''x1'', dp_name = ''Seat'', dp_quantity = 1,
            dp_unitPrice = 10000, totalPrice = 10000, dp_discount = 0 \<rparr>],
       contacts = [exContact],
       activities = [] \<rparr>"

definition exItems :: "dealProductInput list" where
  "exItems =
     [\<lparr> productId = ''x1'', name = ''Seat'', quantity = 2, unitPrice = 100, discount = Some 10 \<rparr>,
      \<lparr> productId = ''x2'', name = ''Setup'', quantity = 1, unitPrice = 50, discount = Some 0 \<rparr>,
      \<lparr> productId = ''x3'', name = ''Addon'', quantity = 5, unitPrice = 20, discount = Some 20 \<rparr>]"

text \<open>
  A second store for \<open>getConversionRates\<close>: the store above with a single deal, closed
  in the last stage of pipeline \<open>p2\<close>, whose three stages share one name.
\<close>

definition exDealR :: deal where
  "exDealR =
     \<lparr> deal_id = ''d4'', deal_name = ''Audit'', deal_value = 700, currency = ''USD'',
       probability = 30, pipelineId = ''p2'', stageId = ''r3'',
       expectedCloseDate = 4 * msPerDay, actualCloseDate = Some (4 * msPerDay), contactId = ''c1'',
       ownerId = ''u1'', updatedAt = 4 * msPerDay, stageChangedAt = 4 * msPerDay \<rparr>"

definition exDbR :: db where
  "exDbR = exDb\<lparr> deals := [exDealR] \<rparr>"

text \<open>A period table and the empty options, to run \<open>generateForecast\<close>.\<close>

definition exPeriodDates :: "forecastPeriod \<Rightarrow> timestamp \<times> timestamp" where
  "exPeriodDates p = (case p of THIS_MONTH \<Rightarrow> (0, 100 * msPerDay) | _ \<Rightarrow> (200 * msPerDay, 300 * msPerDay))"

definition noOptions :: forecastOptions where
  "noOptions = \<lparr> opt_ownerId = None, opt_pipelineId = None \<rparr>"

section \<open>Store lemmas\<close>

lemma find_updateWhere:
  "find P rows = Some r \<Longrightarrow> \<forall>x. P (patch x) = P x
     \<Longrightarrow> find P (updateWhere P patch rows) = Some (patch r)"
  by (induction rows) (simp_all add: updateWhere_def split: if_splits)

lemma deal_stored:
  assumes "findDealById d dealId = Some deal" and "\<forall>x. deal_id (patch x) = deal_id x"
  shows "find (\<lambda>r. deal_id r = dealId) (updateWhere (\<lambda>r. deal_id r = dealId) patch (deals d))
           = Some (patch deal)"
proof -
  have f: "find (\<lambda>r. deal_id r = dealId) (deals d) = Some deal"
    using assms(1) by (simp add: findDealById_def)
  have k: "\<forall>x. (deal_id (patch x) = dealId) = (deal_id x = dealId)"
    using assms(2) by simp
  show ?thesis
    by (rule find_updateWhere [where P = "\<lambda>r. deal_id r = dealId", OF f k])
qed

lemma contact_stored:
  assumes "findContactById d cid = Some c"
  shows "findContactById
           (d\<lparr> contacts := updateWhere (\<lambda>r. contact_id r = cid) (lifecyclePatch now t) (contacts d),
               activities := acts \<rparr>) cid = Some (lifecyclePatch now t c)"
proof -
  have k: "\<forall>x. (contact_id (lifecyclePatch now t x) = cid) = (contact_id x = cid)"
    by (simp add: lifecyclePatch_def)
  have f: "find (\<lambda>r. contact_id r = cid) (contacts d) = Some c"
    using assms by (simp add: findContactById_def)
  from find_updateWhere [where P = "\<lambda>r. contact_id r = cid", OF f k]
  show ?thesis
    by (simp add: findContactById_def)
qed

section \<open>Stage transitions\<close>

lemma moveDealToStage_result:
  assumes "findDealById d dealId = Some deal" and "findStageById d sid = Some s"
  shows "moveDealToStage now d dealId sid reason =
           Inr (moveDealPatch now sid s deal,
                d\<lparr> deals := updateWhere (\<lambda>r. deal_id r = dealId) (moveDealPatch now sid s) (deals d),
                   activities := activities d @
                     [DEAL_STAGE_CHANGED dealId (contactId deal)
                        (map_option stage_name (findStageById d (stageId deal))) (stage_name s) reason] \<rparr>)"
  using assms by (simp add: moveDealToStage_def Let_def)

text \<open>
  C2. For an existing deal and an existing target stage, \<open>moveDealToStage\<close> succeeds;
  the deal it returns is the deal the store then holds under that id; its stage is the
  target, its probability the target's default probability, its \<open>stageChangedAt\<close> the
  call time; its \<open>actualCloseDate\<close> is the call time exactly when the target is named
  Closed Won or Closed Lost, and the deal's previous \<open>actualCloseDate\<close> otherwise.
\<close>

theorem moveDealToStage_sets_fields:
  assumes "findDealById d dealId = Some deal" and "findStageById d sid = Some s"
  shows "\<exists>updated d'.
           moveDealToStage now d dealId sid reason = Inr (updated, d')
           \<and> findDealById d' dealId = Some updated
           \<and> stageId updated = sid
           \<and> probability updated = stage_probability s
           \<and> stageChangedAt updated = now
           \<and> actualCloseDate updated =
               (if stage_name s = ''Closed Won'' \<or> stage_name s = ''Closed Lost''
                then Some now else actualCloseDate deal)"
proof -
  have k: "\<forall>x. deal_id (moveDealPatch now sid s x) = deal_id x"
    by (simp add: moveDealPatch_def)
  have stored: "findDealById
                  (d\<lparr> deals := updateWhere (\<lambda>r. deal_id r = dealId) (moveDealPatch now sid s) (deals d),
                     activities := activities d @
                       [DEAL_STAGE_CHANGED dealId (contactId deal)
                          (map_option stage_name (findStageById d (stageId deal))) (stage_name s) reason] \<rparr>)
                  dealId = Some (moveDealPatch now sid s deal)"
    using deal_stored [OF assms(1) k] by (simp add: findDealById_def)
  have fields:
    "stageId (moveDealPatch now sid s deal) = sid"
    "probability (moveDealPatch now sid s deal) = stage_probability s"
    "stageChangedAt (moveDealPatch now sid s deal) = now"
    "actualCloseDate (moveDealPatch now sid s deal) =
       (if stage_name s = ''Closed Won'' \<or> stage_name s = ''Closed Lost''
        then Some now else actualCloseDate deal)"
    by (simp_all add: moveDealPatch_def)
  show ?thesis
    using moveDealToStage_result [OF assms, of now reason] stored fields by blast
qed

theorem moveDealToStage_witness:
  "findDealById exDb ''d2'' = Some exDeal2
   \<and> actualCloseDate exDeal2 = Some (3 * msPerDay)
   \<and> (\<exists>updated d'.
         moveDealToStage (9 * msPerDay) exDb ''d2'' ''s1'' None = Inr (updated, d')
         \<and> findDealById d' ''d2'' = Some updated
         \<and> stageId updated = ''s1''
         \<and> probability updated = 25
         \<and> stageChangedAt updated = 9 * msPerDay
         \<and> actualCloseDate updated = Some (3 * msPerDay))"
proof -
  have a: "findDealById exDb ''d2'' = Some exDeal2"
    by (simp add: findDealById_def exDb_def exDeal1_def exDeal2_def)
  have b: "findStageById exDb ''s1'' = Some (hd exStages)"
    by (simp add: findStageById_def exDb_def exStages_def)
  have c: "stage_name (hd exStages) = ''Qualified''" "stage_probability (hd exStages) = 25"
    by (simp_all add: exStages_def)
  have e: "actualCloseDate exDeal2 = Some (3 * msPerDay)"
    by (simp add: exDeal2_def)
  show ?thesis
    using a e moveDealToStage_sets_fields [OF a b, of "9 * msPerDay" None]
    by (simp add: c)
qed

section \<open>Value recalculation\<close>

lemma foldl_line_items:
  "foldl (\<lambda>total product.
            let subtotal = of_int (quantity product) * unitPrice product;
                disc = subtotal * discountOr0 (discount product) / 100
            in total + (subtotal - disc)) a ps
   = a + (\<Sum>p\<leftarrow>ps. of_int (quantity p) * unitPrice p * (1 - discountOr0 (discount p) / 100))"
  by (induction ps arbitrary: a) (simp_all add: Let_def algebra_simps)

lemma calculateDealValue_sum:
  "calculateDealValue ps =
     (\<Sum>p\<leftarrow>ps. of_int (quantity p) * unitPrice p * (1 - discountOr0 (discount p) / 100))"
  unfolding calculateDealValue_def by (simp only: foldl_line_items add_0_left)

lemma filter_toDealProduct:
  "filter (\<lambda>r. dp_dealId r = dealId) (map (toDealProduct dealId) ps) = map (toDealProduct dealId) ps"
  by (induction ps) (simp_all add: toDealProduct_def)

lemma updateDealValue_result:
  assumes "findDealById d dealId = Some deal"
  shows "\<exists>d'. updateDealValue now d dealId ps
                 = Inr (deal\<lparr> deal_value := calculateDealValue ps, updatedAt := now \<rparr>, d')
              \<and> findDealById d' dealId
                 = Some (deal\<lparr> deal_value := calculateDealValue ps, updatedAt := now \<rparr>)
              \<and> productsOfDeal d' dealId = map (toDealProduct dealId) ps"
proof -
  let ?patch = "\<lambda>r. r\<lparr> deal_value := calculateDealValue ps, updatedAt := now \<rparr>"
  let ?d' = "d\<lparr> dealProducts :=
                  filter (\<lambda>r. dp_dealId r \<noteq> dealId) (dealProducts d) @ map (toDealProduct dealId) ps,
                deals := updateWhere (\<lambda>r. deal_id r = dealId) ?patch (deals d),
                activities := activities d @
                  [DEAL_VALUE_CHANGED dealId (contactId deal) (deal_value deal)
                     (calculateDealValue ps) (length ps)] \<rparr>"
  have k: "\<forall>x. deal_id (?patch x) = deal_id x"
    by simp
  have r: "updateDealValue now d dealId ps = Inr (?patch deal, ?d')"
    using assms by (simp add: updateDealValue_def Let_def)
  have s: "findDealById ?d' dealId = Some (?patch deal)"
    using deal_stored [OF assms k] by (simp add: findDealById_def)
  have p: "productsOfDeal ?d' dealId = map (toDealProduct dealId) ps"
    by (simp add: productsOfDeal_def filter_toDealProduct)
  show ?thesis
    using r s p by blast
qed

text \<open>
  C5. For an existing deal, \<open>updateDealValue\<close> succeeds and the deal it returns and
  stores has as value the sum over the given line items of quantity times unit price times
  (1 - discount / 100), a missing discount counting as 0. On the three line items
  (2, 100, 10), (1, 50, 0) and (5, 20, 20) the value becomes 180 + 50 + 80 = 310, as the
  instance that follows the theorem computes.
\<close>

theorem updateDealValue_sets_value:
  assumes "findDealById d dealId = Some deal"
  shows "\<exists>updated d'.
           updateDealValue now d dealId products = Inr (updated, d')
           \<and> findDealById d' dealId = Some updated
           \<and> deal_value updated =
               (\<Sum>p\<leftarrow>products. of_int (quantity p) * unitPrice p * (1 - discountOr0 (discount p) / 100))"
proof -
  from updateDealValue_result [OF assms, of now products]
  obtain d' where r:
    "updateDealValue now d dealId products
       = Inr (deal\<lparr> deal_value := calculateDealValue products, updatedAt := now \<rparr>, d')"
    "findDealById d' dealId = Some (deal\<lparr> deal_value := calculateDealValue products, updatedAt := now \<rparr>)"
    by blast
  have v: "deal_value (deal\<lparr> deal_value := calculateDealValue products, updatedAt := now \<rparr>)
             = (\<Sum>p\<leftarrow>products. of_int (quantity p) * unitPrice p * (1 - discountOr0 (discount p) / 100))"
    by (simp add: calculateDealValue_sum)
  show ?thesis
    using r v by blast
qed

theorem updateDealValue_witness:
  "findDealById exDb ''d1'' = Some exDeal1
   \<and> (\<exists>updated d'.
         updateDealValue 7 exDb ''d1'' exItems = Inr (updated, d')
         \<and> findDealById d' ''d1'' = Some updated
         \<and> deal_value updated = 180 + 50 + 80
         \<and> deal_value updated = 310)"
proof -
  have a: "findDealById exDb ''d1'' = Some exDeal1"
    by (simp add: findDealById_def exDb_def exDeal1_def)
  have s: "(\<Sum>p\<leftarrow>exItems. of_int (quantity p) * unitPrice p * (1 - discountOr0 (discount p) / 100))
             = (310 :: rat)"
    by (simp add: exItems_def)
  show ?thesis
    using a updateDealValue_sets_value [OF a, of 7 exItems]
    by (simp add: s)
qed

text \<open>
  C6. For an existing deal, two calls of \<open>updateDealValue\<close> with the same line items
  both succeed and return the same value, which is also the stored value after each call;
  after each call the deal has exactly as many stored product rows as the input has items.
\<close>

theorem updateDealValue_idempotent:
  assumes "findDealById d dealId = Some deal"
  shows "\<exists>deal1 d1 deal2 d2.
           updateDealValue now d dealId products = Inr (deal1, d1)
           \<and> updateDealValue now' d1 dealId products = Inr (deal2, d2)
           \<and> deal_value deal1 = deal_value deal2
           \<and> map_option deal_value (findDealById d1 dealId) = Some (deal_value deal1)
           \<and> map_option deal_value (findDealById d2 dealId) = Some (deal_value deal1)
           \<and> length (productsOfDeal d1 dealId) = length products
           \<and> length (productsOfDeal d2 dealId) = length products"
proof -
  let ?deal1 = "deal\<lparr> deal_value := calculateDealValue products, updatedAt := now \<rparr>"
  let ?deal2 = "?deal1\<lparr> deal_value := calculateDealValue products, updatedAt := now' \<rparr>"
  from updateDealValue_result [OF assms, of now products]
  obtain d1 where r1:
    "updateDealValue now d dealId products = Inr (?deal1, d1)"
    "findDealById d1 dealId = Some ?deal1"
    "productsOfDeal d1 dealId = map (toDealProduct dealId) products"
    by blast
  from updateDealValue_result [OF r1(2), of now' products]
  obtain d2 where r2:
    "updateDealValue now' d1 dealId products = Inr (?deal2, d2)"
    "findDealById d2 dealId = Some ?deal2"
    "productsOfDeal d2 dealId = map (toDealProduct dealId) products"
    by blast
  have "deal_value ?deal1 = deal_value ?deal2"
    by simp
  moreover have "map_option deal_value (findDealById d1 dealId) = Some (deal_value ?deal1)"
    by (simp add: r1(2))
  moreover have "map_option deal_value (findDealById d2 dealId) = Some (deal_value ?deal1)"
    by (simp add: r2(2))
  moreover have "length (productsOfDeal d1 dealId) = length products"
    by (simp add: r1(3))
  moreover have "length (productsOfDeal d2 dealId) = length products"
    by (simp add: r2(3))
  ultimately show ?thesis
    using r1(1) r2(1) by blast
qed

theorem updateDealValue_idempotent_witness:
  "findDealById exDb ''d1'' = Some exDeal1
   \<and> length (productsOfDeal exDb ''d1'') = 1
   \<and> (\<exists>deal1 d1 deal2 d2.
         updateDealValue 7 exDb ''d1'' exItems = Inr (deal1, d1)
         \<and> updateDealValue 8 d1 ''d1'' exItems = Inr (deal2, d2)
         \<and> deal_value deal1 = deal_value deal2
         \<and> map_option deal_value (findDealById d1 ''d1'') = Some (deal_value deal1)
         \<and> map_option deal_value (findDealById d2 ''d1'') = Some (deal_value deal1)
         \<and> length (productsOfDeal d1 ''d1'') = 3
         \<and> length (productsOfDeal d2 ''d1'') = 3)"
proof -
  have a: "findDealById exDb ''d1'' = Some exDeal1"
    by (simp add: findDealById_def exDb_def exDeal1_def)
  have b: "length (productsOfDeal exDb ''d1'') = 1"
    by (simp add: productsOfDeal_def exDb_def)
  have c: "length exItems = 3"
    by (simp add: exItems_def)
  show ?thesis
    using a b updateDealValue_idempotent [OF a, of 7 exItems 8]
    by (simp add: c)
qed

section \<open>Rotten deals\<close>

lemma rotten_iff:
  "(rottenWhere d owner deal \<and> isRotten now d deal) =
     (actualCloseDate deal = None
      \<and> (truthy owner \<longrightarrow> Some (ownerId deal) = owner)
      \<and> (\<exists>stage r. findStageById d (stageId deal) = Some stage \<and> rottenDays stage = Some r
             \<and> r \<noteq> 0 \<and> r < daysSinceStageChange now deal))"
proof (cases "findStageById d (stageId deal)")
  case None
  then show ?thesis
    by (simp add: rottenWhere_def isRotten_def)
next
  case (Some stage)
  show ?thesis
  proof (cases "rottenDays stage")
    case None
    with Some show ?thesis
      by (simp add: rottenWhere_def isRotten_def)
  next
    case (Some r)
    with \<open>findStageById d (stageId deal) = Some stage\<close> show ?thesis
      by (auto simp: rottenWhere_def isRotten_def)
  qed
qed

lemma getRottenDeals_set:
  "set (getRottenDeals now d owner) =
     {deal \<in> set (deals d).
        actualCloseDate deal = None
        \<and> (truthy owner \<longrightarrow> Some (ownerId deal) = owner)
        \<and> (\<exists>stage r. findStageById d (stageId deal) = Some stage \<and> rottenDays stage = Some r
               \<and> r \<noteq> 0 \<and> r < daysSinceStageChange now deal)}"
proof -
  have "set (getRottenDeals now d owner) =
          {deal \<in> set (deals d). rottenWhere d owner deal \<and> isRotten now d deal}"
    by (auto simp: getRottenDeals_def)
  then show ?thesis
    by (simp only: rotten_iff)
qed

lemma getRottenDeals_open_with_threshold:
  assumes "deal \<in> set (getRottenDeals now d owner)"
  shows "actualCloseDate deal = None
         \<and> (\<exists>stage r. findStageById d (stageId deal) = Some stage \<and> rottenDays stage = Some r)"
  using assms unfolding getRottenDeals_set by blast

text \<open>
  C4. The code misses the deals of a stage whose \<open>rottenDays\<close> is 0: the filter tests the
  number for truthiness. Deal \<open>d1\<close> is open, its stage Qualified has \<open>rottenDays = 0\<close>,
  and five days after its last stage change \<open>floor (5 days / 1 day) = 5 > 0\<close>; still
  \<open>getRottenDeals\<close> does not return it. Thirty days after, deal \<open>d3\<close> (threshold 14)
  is returned and \<open>d1\<close> is still missing.
\<close>

theorem getRottenDeals_misses_zero_threshold:
  "exDeal1 \<in> set (deals exDb)
   \<and> actualCloseDate exDeal1 = None
   \<and> map_option rottenDays (findStageById exDb (stageId exDeal1)) = Some (Some 0)
   \<and> daysSinceStageChange (5 * msPerDay) exDeal1 = 5
   \<and> getRottenDeals (5 * msPerDay) exDb None = []
   \<and> daysSinceStageChange (30 * msPerDay) exDeal1 = 30
   \<and> map deal_id (getRottenDeals (30 * msPerDay) exDb None) = [''d3'']"
  by (simp add: getRottenDeals_def isRotten_def rottenWhere_def daysSinceStageChange_def
      findStageById_def exDb_def exDeal1_def exDeal2_def exDeal3_def exStages_def msPerDay_def)

section \<open>Forecast confidence\<close>

lemma confidenceScore_sum:
  "fold (\<lambda>deal confidenceScore. confidenceScore + dealConfidence now deal) ds a
     = a + (\<Sum>deal\<leftarrow>ds. dealConfidence now deal)"
  by (induction ds arbitrary: a) simp_all

text \<open>
  C1, as the code has it. The staleness multipliers compound: a deal more than 30 days
  stale gets 0.8 * 0.7 * 0.5, one more than 14 days stale 0.8 * 0.7, one more than 7 days
  stale 0.8; a deal updated at most 2 days ago gets 1.1; any other deal keeps its
  probability. The product is capped at 100, and the confidence of a non-empty list of
  deals is the rounded mean of these contributions.
\<close>

theorem dealConfidence_compounds:
  "dealConfidence now deal =
     min (of_int (probability deal) *
            (if daysSinceUpdate now deal > 30 then (8 / 10) * (7 / 10) * (5 / 10)
             else if daysSinceUpdate now deal > 14 then (8 / 10) * (7 / 10)
             else if daysSinceUpdate now deal > 7 then 8 / 10
             else if daysSinceUpdate now deal \<le> 2 then 11 / 10
             else 1)) 100
   \<and> calculateConfidence now ds =
       (if ds = [] then 0
        else js_round ((\<Sum>deal\<leftarrow>ds. dealConfidence now deal) / of_nat (length ds)))"
proof
  show "dealConfidence now deal =
     min (of_int (probability deal) *
            (if daysSinceUpdate now deal > 30 then (8 / 10) * (7 / 10) * (5 / 10)
             else if daysSinceUpdate now deal > 14 then (8 / 10) * (7 / 10)
             else if daysSinceUpdate now deal > 7 then 8 / 10
             else if daysSinceUpdate now deal \<le> 2 then 11 / 10
             else 1)) 100"
    by (simp add: dealConfidence_def Let_def mult.commute)
next
  show "calculateConfidence now ds =
       (if ds = [] then 0
        else js_round ((\<Sum>deal\<leftarrow>ds. dealConfidence now deal) / of_nat (length ds)))"
    by (simp add: calculateConfidence_def confidenceScore_sum)
qed

text \<open>
  The claim as stated fails: deal \<open>d1\<close> (probability 50), 20 days after its last update,
  contributes 50 * 0.8 * 0.7 = 28 and not 50 * 0.7 = 35; 31 days after, it contributes
  50 * 0.8 * 0.7 * 0.5 = 14 and not 50 * 0.5 = 25.
\<close>

theorem dealConfidence_single_multiplier_counterexample:
  "daysSinceUpdate (20 * msPerDay) exDeal1 = 20
   \<and> dealConfidence (20 * msPerDay) exDeal1 = 28
   \<and> dealConfidence (20 * msPerDay) exDeal1 \<noteq> min (of_int (probability exDeal1) * (7 / 10)) 100
   \<and> daysSinceUpdate (31 * msPerDay) exDeal1 = 31
   \<and> dealConfidence (31 * msPerDay) exDeal1 = 14
   \<and> dealConfidence (31 * msPerDay) exDeal1 \<noteq> min (of_int (probability exDeal1) * (5 / 10)) 100"
  by (simp add: dealConfidence_def daysSinceUpdate_def exDeal1_def msPerDay_def)

lemma dealConfidence_le_100: "dealConfidence now deal \<le> 100"
  by (simp add: dealConfidence_def Let_def)

lemma dealConfidence_nonneg:
  assumes "0 \<le> probability deal"
  shows "0 \<le> dealConfidence now deal"
proof -
  have "0 \<le> (of_int (probability deal) :: rat)"
    using assms by simp
  then show ?thesis
    by (simp add: dealConfidence_def Let_def)
qed

lemma confidenceScore_bounds:
  assumes "\<forall>deal \<in> set ds. 0 \<le> probability deal" and "0 \<le> a"
  shows "0 \<le> fold (\<lambda>deal confidenceScore. confidenceScore + dealConfidence now deal) ds a
         \<and> fold (\<lambda>deal confidenceScore. confidenceScore + dealConfidence now deal) ds a
             \<le> a + 100 * of_nat (length ds)"
  using assms
proof (induction ds arbitrary: a)
  case Nil
  then show ?case by simp
next
  case (Cons deal ds)
  have lo: "0 \<le> dealConfidence now deal"
    using Cons.prems(1) by (simp add: dealConfidence_nonneg)
  have hi: "dealConfidence now deal \<le> 100"
    by (rule dealConfidence_le_100)
  have "0 \<le> a + dealConfidence now deal"
    using lo Cons.prems(2) by simp
  with Cons.IH [of "a + dealConfidence now deal"] Cons.prems(1)
  have ih: "0 \<le> fold (\<lambda>deal confidenceScore. confidenceScore + dealConfidence now deal) ds
                   (a + dealConfidence now deal)"
    "fold (\<lambda>deal confidenceScore. confidenceScore + dealConfidence now deal) ds
       (a + dealConfidence now deal) \<le> a + dealConfidence now deal + 100 * of_nat (length ds)"
    by simp_all
  show ?case
    using ih hi by (simp add: algebra_simps)
qed

lemma js_round_bounds:
  assumes "0 \<le> x" and "x \<le> 100"
  shows "0 \<le> js_round x \<and> js_round x \<le> 100"
proof -
  have "0 \<le> \<lfloor>x + 1 / 2\<rfloor>"
    using assms(1) by (simp add: zero_le_floor)
  moreover have "x + 1 / 2 < of_int (100 + 1)"
    using assms(2) by simp
  then have "\<lfloor>x + 1 / 2\<rfloor> < 100 + 1"
    by (simp only: floor_less_iff)
  ultimately show ?thesis
    by (simp add: js_round_def)
qed

lemma calculateConfidence_bounds:
  assumes "\<forall>deal \<in> set ds. 0 \<le> probability deal"
  shows "0 \<le> calculateConfidence now ds \<and> calculateConfidence now ds \<le> 100"
proof (cases "ds = []")
  case True
  then show ?thesis by (simp add: calculateConfidence_def)
next
  case False
  let ?s = "fold (\<lambda>deal confidenceScore. confidenceScore + dealConfidence now deal) ds 0"
  have n: "0 < (of_nat (length ds) :: rat)"
    using False by simp
  from confidenceScore_bounds [OF assms, of 0 now]
  have b: "0 \<le> ?s" "?s \<le> 100 * of_nat (length ds)"
    by simp_all
  have lo: "0 \<le> ?s / of_nat (length ds)"
    using b(1) n by simp
  have hi: "?s / of_nat (length ds) \<le> 100"
    using b(2) n by (simp add: pos_divide_le_eq)
  show ?thesis
    using js_round_bounds [OF lo hi] False by (simp add: calculateConfidence_def)
qed

lemma forecastDeals_subset:
  "row \<in> set (forecastDeals startDate endDate options d) \<Longrightarrow> fst row \<in> set (deals d)"
  by (auto simp: forecastDeals_def List.map_filter_def includeStageOwner_def
      split: option.splits)

lemma generateForecast_confidence:
  "confidence (generateForecast getPeriodDates now d p options) =
     calculateConfidence now
       (map fst (forecastDeals (fst (getPeriodDates p)) (snd (getPeriodDates p)) options d))"
proof -
  have fold_conf: "\<And>rows f. confidence (fold addDeal rows f) = confidence f"
  proof -
    fix rows :: "forecastRow list" and f :: forecast
    show "confidence (fold addDeal rows f) = confidence f"
      by (induction rows arbitrary: f) (simp_all add: addDeal_def Let_def split: prod.split)
  qed
  show ?thesis
    by (simp add: generateForecast_def Let_def fold_conf split: prod.split)
qed

section \<open>Forecast totals\<close>

lemma addDeal_totals:
  "totalValue (addDeal row f) = totalValue f + deal_value (fst row)"
  "weightedValue (addDeal row f) =
     weightedValue f + deal_value (fst row) * (of_int (probability (fst row)) / 100)"
  by (simp_all add: addDeal_def Let_def split: prod.split)

lemma fold_addDeal_totals:
  "totalValue (fold addDeal rows f) = totalValue f + (\<Sum>row\<leftarrow>rows. deal_value (fst row))"
  "weightedValue (fold addDeal rows f) =
     weightedValue f + (\<Sum>row\<leftarrow>rows. deal_value (fst row) * (of_int (probability (fst row)) / 100))"
  by (induction rows arbitrary: f) (simp_all add: addDeal_totals)

lemma weighted_le_value:
  fixes v :: rat
  assumes "0 \<le> v" and "p \<le> 100"
  shows "v * (of_int p / 100) \<le> v"
proof -
  have "(of_int p :: rat) / 100 \<le> 1"
    using assms(2) by simp
  then show ?thesis
    using assms(1) by (rule mult_left_le)
qed

lemma update_all:
  "\<forall>e \<in> set al. P (snd e) \<Longrightarrow> P v \<Longrightarrow> \<forall>e \<in> set (AList.update k v al). P (snd e)"
  by (induction al) auto

lemma map_entry_all:
  "\<forall>e \<in> set al. P (snd e) \<Longrightarrow> \<forall>m. P m \<longrightarrow> P (g m)
     \<Longrightarrow> \<forall>e \<in> set (AList.map_entry k g al). P (snd e)"
  by (induction al) auto

lemma addDeal_bucketsOk:
  assumes ok: "bucketsOk f"
    and le: "deal_value (fst row) * (of_int (probability (fst row)) / 100) \<le> deal_value (fst row)"
  shows "bucketsOk (addDeal row f)"
proof -
  obtain deal stage owner where row: "row = (deal, stage, owner)"
    by (cases row) auto
  let ?v = "deal_value deal"
  let ?w = "?v * (of_int (probability deal) / 100)"
  have wv: "?w \<le> ?v"
    using le by (simp add: row)
  let ?PS = "\<lambda>m. sm_weightedValue m \<le> sm_totalValue m"
  let ?PO = "\<lambda>m. om_weightedValue m \<le> om_totalValue m"
  let ?zs = "\<lparr> sm_count = 0, sm_totalValue = 0, sm_weightedValue = 0, averageProbability = 0 \<rparr>"
  let ?zo = "\<lparr> om_count = 0, om_totalValue = 0, om_weightedValue = 0 \<rparr>"
  let ?gs = "\<lambda>m. m\<lparr> sm_count := sm_count m + 1, sm_totalValue := sm_totalValue m + ?v,
                       sm_weightedValue := sm_weightedValue m + ?w \<rparr>"
  let ?go = "\<lambda>m. m\<lparr> om_count := om_count m + 1, om_totalValue := om_totalValue m + ?v,
                       om_weightedValue := om_weightedValue m + ?w \<rparr>"
  let ?bs0 = "if map_of (byStage f) (stage_name stage) = None
              then AList.update (stage_name stage) ?zs (byStage f) else byStage f"
  let ?bo0 = "if map_of (byOwner f) (ownerNameOf owner) = None
              then AList.update (ownerNameOf owner) ?zo (byOwner f) else byOwner f"
  have s0: "\<forall>e \<in> set (byStage f). ?PS (snd e)" and o0: "\<forall>e \<in> set (byOwner f). ?PO (snd e)"
    using ok by (simp_all add: bucketsOk_def)
  have "\<forall>e \<in> set (AList.update (stage_name stage) ?zs (byStage f)). ?PS (snd e)"
    by (rule update_all [where P = ?PS, OF s0]) simp
  then have s1: "\<forall>e \<in> set ?bs0. ?PS (snd e)"
    using s0 by simp
  have "\<forall>e \<in> set (AList.update (ownerNameOf owner) ?zo (byOwner f)). ?PO (snd e)"
    by (rule update_all [where P = ?PO, OF o0]) simp
  then have o1: "\<forall>e \<in> set ?bo0. ?PO (snd e)"
    using o0 by simp
  have gs: "\<forall>m. ?PS m \<longrightarrow> ?PS (?gs m)"
    using wv by simp
  have go: "\<forall>m. ?PO m \<longrightarrow> ?PO (?go m)"
    using wv by simp
  have s2: "\<forall>e \<in> set (AList.map_entry (stage_name stage) ?gs ?bs0). ?PS (snd e)"
    by (rule map_entry_all [where P = ?PS, OF s1 gs])
  have o2: "\<forall>e \<in> set (AList.map_entry (ownerNameOf owner) ?go ?bo0). ?PO (snd e)"
    by (rule map_entry_all [where P = ?PO, OF o1 go])
  have bs: "byStage (addDeal row f) = AList.map_entry (stage_name stage) ?gs ?bs0"
    by (simp add: addDeal_def Let_def row)
  have bo: "byOwner (addDeal row f) = AList.map_entry (ownerNameOf owner) ?go ?bo0"
    by (simp add: addDeal_def Let_def row)
  show ?thesis
    unfolding bucketsOk_def bs bo using s2 o2 by blast
qed

lemma fold_addDeal_bucketsOk:
  assumes "bucketsOk f"
    and "\<forall>row \<in> set rows.
           deal_value (fst row) * (of_int (probability (fst row)) / 100) \<le> deal_value (fst row)"
  shows "bucketsOk (fold addDeal rows f)"
  using assms
proof (induction rows arbitrary: f)
  case Nil
  then show ?case by simp
next
  case (Cons row rows)
  have "bucketsOk (addDeal row f)"
    using Cons.prems by (simp add: addDeal_bucketsOk)
  then have "bucketsOk (fold addDeal rows (addDeal row f))"
    using Cons.prems(2) by (intro Cons.IH) simp_all
  then show ?case by simp
qed

lemma sum_list_le:
  fixes g h :: "'a \<Rightarrow> rat"
  assumes "\<forall>x \<in> set xs. g x \<le> h x"
  shows "sum_list (map g xs) \<le> sum_list (map h xs)"
  using assms by (induction xs) (simp_all add: add_mono)

lemma generateForecast_fields:
  "totalValue (generateForecast getPeriodDates now d p options) =
     totalValue (fold addDeal (forecastDeals (fst (getPeriodDates p)) (snd (getPeriodDates p)) options d)
       \<lparr> period = p, totalValue = 0, weightedValue = 0,
         dealCount = length (forecastDeals (fst (getPeriodDates p)) (snd (getPeriodDates p)) options d),
         confidence = calculateConfidence now
           (map fst (forecastDeals (fst (getPeriodDates p)) (snd (getPeriodDates p)) options d)),
         byStage = [], byOwner = [] \<rparr>)"
  "weightedValue (generateForecast getPeriodDates now d p options) =
     weightedValue (fold addDeal (forecastDeals (fst (getPeriodDates p)) (snd (getPeriodDates p)) options d)
       \<lparr> period = p, totalValue = 0, weightedValue = 0,
         dealCount = length (forecastDeals (fst (getPeriodDates p)) (snd (getPeriodDates p)) options d),
         confidence = calculateConfidence now
           (map fst (forecastDeals (fst (getPeriodDates p)) (snd (getPeriodDates p)) options d)),
         byStage = [], byOwner = [] \<rparr>)"
  "byOwner (generateForecast getPeriodDates now d p options) =
     byOwner (fold addDeal (forecastDeals (fst (getPeriodDates p)) (snd (getPeriodDates p)) options d)
       \<lparr> period = p, totalValue = 0, weightedValue = 0,
         dealCount = length (forecastDeals (fst (getPeriodDates p)) (snd (getPeriodDates p)) options d),
         confidence = calculateConfidence now
           (map fst (forecastDeals (fst (getPeriodDates p)) (snd (getPeriodDates p)) options d)),
         byStage = [], byOwner = [] \<rparr>)"
  "byStage (generateForecast getPeriodDates now d p options) =
     map (setAverage (forecastDeals (fst (getPeriodDates p)) (snd (getPeriodDates p)) options d))
       (byStage (fold addDeal (forecastDeals (fst (getPeriodDates p)) (snd (getPeriodDates p)) options d)
       \<lparr> period = p, totalValue = 0, weightedValue = 0,
         dealCount = length (forecastDeals (fst (getPeriodDates p)) (snd (getPeriodDates p)) options d),
         confidence = calculateConfidence now
           (map fst (forecastDeals (fst (getPeriodDates p)) (snd (getPeriodDates p)) options d)),
         byStage = [], byOwner = [] \<rparr>))"
  by (simp_all add: generateForecast_def Let_def split: prod.split)

lemma setAverage_keeps:
  "sm_weightedValue (snd (setAverage rows e)) = sm_weightedValue (snd e)"
  "sm_totalValue (snd (setAverage rows e)) = sm_totalValue (snd e)"
  by (simp_all add: setAverage_def Let_def split: prod.split)

text \<open>
  C7. When every selected deal has a non-negative value and a probability between 0 and
  100, the forecast's total value is the sum of the selected deals' values, its weighted
  value the sum of value times probability / 100, the weighted value is at most the total
  value, and the same inequality holds in every stage bucket and in every owner bucket.
\<close>

theorem generateForecast_weighted_le_total:
  assumes "\<forall>row \<in> set (forecastDeals (fst (getPeriodDates p)) (snd (getPeriodDates p)) options d).
             0 \<le> deal_value (fst row) \<and> 0 \<le> probability (fst row) \<and> probability (fst row) \<le> 100"
  shows "totalValue (generateForecast getPeriodDates now d p options) =
           (\<Sum>row\<leftarrow>forecastDeals (fst (getPeriodDates p)) (snd (getPeriodDates p)) options d.
              deal_value (fst row))
         \<and> weightedValue (generateForecast getPeriodDates now d p options) =
           (\<Sum>row\<leftarrow>forecastDeals (fst (getPeriodDates p)) (snd (getPeriodDates p)) options d.
              deal_value (fst row) * (of_int (probability (fst row)) / 100))
         \<and> weightedValue (generateForecast getPeriodDates now d p options)
             \<le> totalValue (generateForecast getPeriodDates now d p options)
         \<and> (\<forall>e \<in> set (byStage (generateForecast getPeriodDates now d p options)).
               sm_weightedValue (snd e) \<le> sm_totalValue (snd e))
         \<and> (\<forall>e \<in> set (byOwner (generateForecast getPeriodDates now d p options)).
               om_weightedValue (snd e) \<le> om_totalValue (snd e))"
proof -
  let ?rows = "forecastDeals (fst (getPeriodDates p)) (snd (getPeriodDates p)) options d"
  let ?f0 = "\<lparr> period = p, totalValue = 0, weightedValue = 0, dealCount = length ?rows,
               confidence = calculateConfidence now (map fst ?rows),
               byStage = [], byOwner = [] \<rparr>"
  have le: "\<forall>row \<in> set ?rows.
              deal_value (fst row) * (of_int (probability (fst row)) / 100) \<le> deal_value (fst row)"
  proof (intro ballI)
    fix row
    assume "row \<in> set ?rows"
    with assms have "0 \<le> deal_value (fst row)" and "probability (fst row) \<le> 100"
      by blast+
    then show "deal_value (fst row) * (of_int (probability (fst row)) / 100) \<le> deal_value (fst row)"
      by (rule weighted_le_value)
  qed
  have t: "totalValue (generateForecast getPeriodDates now d p options)
             = (\<Sum>row\<leftarrow>?rows. deal_value (fst row))"
    by (simp add: generateForecast_fields(1) fold_addDeal_totals(1))
  have w: "weightedValue (generateForecast getPeriodDates now d p options)
             = (\<Sum>row\<leftarrow>?rows. deal_value (fst row) * (of_int (probability (fst row)) / 100))"
    by (simp add: generateForecast_fields(2) fold_addDeal_totals(2))
  have wt: "weightedValue (generateForecast getPeriodDates now d p options)
              \<le> totalValue (generateForecast getPeriodDates now d p options)"
    unfolding t w by (rule sum_list_le [OF le])
  have "bucketsOk ?f0"
    by (simp add: bucketsOk_def)
  then have ok: "bucketsOk (fold addDeal ?rows ?f0)"
    using le by (rule fold_addDeal_bucketsOk)
  have bo: "\<forall>e \<in> set (byOwner (generateForecast getPeriodDates now d p options)).
              om_weightedValue (snd e) \<le> om_totalValue (snd e)"
    using ok by (simp add: generateForecast_fields(3) bucketsOk_def)
  have bs: "\<forall>e \<in> set (byStage (generateForecast getPeriodDates now d p options)).
              sm_weightedValue (snd e) \<le> sm_totalValue (snd e)"
    using ok by (simp add: generateForecast_fields(4) bucketsOk_def setAverage_keeps)
  show ?thesis
    using t w wt bs bo by blast
qed

lemma exDb_forecastDeals:
  "forecastDeals 0 (100 * msPerDay) noOptions exDb =
     [(exDeal1, exStages ! 0, \<lparr> user_id = ''u1'', user_name = Some ''Ada'' \<rparr>),
      (exDeal3, exStages ! 1, \<lparr> user_id = ''u1'', user_name = Some ''Ada'' \<rparr>)]"
  by (simp add: forecastDeals_def forecastWhere_def includeStageOwner_def List.map_filter_def
      findStageById_def findUserById_def noOptions_def exDb_def exDeal1_def exDeal2_def exDeal3_def
      exStages_def msPerDay_def)

lemma exDb_forecastDeals_later:
  "forecastDeals (200 * msPerDay) (300 * msPerDay) noOptions exDb = []"
  by (simp add: forecastDeals_def forecastWhere_def List.map_filter_def
      noOptions_def exDb_def exDeal1_def exDeal2_def exDeal3_def msPerDay_def)

theorem generateForecast_weighted_le_total_witness:
  "map (\<lambda>row. (deal_value (fst row), probability (fst row)))
     (forecastDeals (fst (exPeriodDates THIS_MONTH)) (snd (exPeriodDates THIS_MONTH)) noOptions exDb)
     = [(10000, 50), (2000, 100)]
   \<and> totalValue (generateForecast exPeriodDates (5 * msPerDay) exDb THIS_MONTH noOptions) = 12000
   \<and> weightedValue (generateForecast exPeriodDates (5 * msPerDay) exDb THIS_MONTH noOptions) = 7000
   \<and> weightedValue (generateForecast exPeriodDates (5 * msPerDay) exDb THIS_MONTH noOptions)
       \<le> totalValue (generateForecast exPeriodDates (5 * msPerDay) exDb THIS_MONTH noOptions)
   \<and> list_all (\<lambda>e. sm_weightedValue (snd e) \<le> sm_totalValue (snd e))
        (byStage (generateForecast exPeriodDates (5 * msPerDay) exDb THIS_MONTH noOptions))
   \<and> list_all (\<lambda>e. om_weightedValue (snd e) \<le> om_totalValue (snd e))
        (byOwner (generateForecast exPeriodDates (5 * msPerDay) exDb THIS_MONTH noOptions))
   \<and> map fst (byStage (generateForecast exPeriodDates (5 * msPerDay) exDb THIS_MONTH noOptions))
       = [''Qualified'', ''Proposal'']"
proof -
  have w: "fst (exPeriodDates THIS_MONTH) = 0" "snd (exPeriodDates THIS_MONTH) = 100 * msPerDay"
    by (simp_all add: exPeriodDates_def)
  have v: "map (\<lambda>row. (deal_value (fst row), probability (fst row)))
             (forecastDeals (fst (exPeriodDates THIS_MONTH)) (snd (exPeriodDates THIS_MONTH)) noOptions exDb)
             = [(10000, 50), (2000, 100)]"
    by (simp add: w exDb_forecastDeals exDeal1_def exDeal3_def)
  have h: "\<forall>row \<in> set (forecastDeals (fst (exPeriodDates THIS_MONTH)) (snd (exPeriodDates THIS_MONTH))
                          noOptions exDb).
             0 \<le> deal_value (fst row) \<and> 0 \<le> probability (fst row) \<and> probability (fst row) \<le> 100"
    by (simp add: w exDb_forecastDeals exDeal1_def exDeal3_def)
  have k: "map fst (byStage (generateForecast exPeriodDates (5 * msPerDay) exDb THIS_MONTH noOptions))
             = [''Qualified'', ''Proposal'']"
    by (simp add: generateForecast_def exPeriodDates_def exDb_forecastDeals Let_def addDeal_def
        setAverage_def exStages_def)
  from generateForecast_weighted_le_total
         [where getPeriodDates = exPeriodDates and p = THIS_MONTH and options = noOptions
            and d = exDb and now = "5 * msPerDay", OF h]
  show ?thesis
    using v k by (simp add: w exDb_forecastDeals exDeal1_def exDeal3_def list_all_iff)
qed

section \<open>Forecast confidence range\<close>

lemma floor_rat_numeral:
  "\<lfloor>(numeral a :: rat) / numeral b\<rfloor> = numeral a div numeral b"
  using floor_divide_of_int_eq [where ?'a = rat, of "numeral a" "numeral b"] by simp

text \<open>
  C8. When every selected deal has a probability between 0 and 100, the confidence of the
  forecast lies between 0 and 100. Every deal's adjusted confidence is at most 100; for a
  non-empty selection the confidence is the rounded mean of the adjusted confidences, and
  for an empty selection it is 0.
\<close>

theorem generateForecast_confidence_range:
  assumes "\<forall>row \<in> set (forecastDeals (fst (getPeriodDates p)) (snd (getPeriodDates p)) options d).
             0 \<le> probability (fst row) \<and> probability (fst row) \<le> 100"
  shows "0 \<le> confidence (generateForecast getPeriodDates now d p options)
         \<and> confidence (generateForecast getPeriodDates now d p options) \<le> 100
         \<and> (\<forall>row \<in> set (forecastDeals (fst (getPeriodDates p)) (snd (getPeriodDates p)) options d).
               dealConfidence now (fst row) \<le> 100)
         \<and> (forecastDeals (fst (getPeriodDates p)) (snd (getPeriodDates p)) options d \<noteq> [] \<longrightarrow>
               confidence (generateForecast getPeriodDates now d p options) =
                 js_round
                   ((\<Sum>row\<leftarrow>forecastDeals (fst (getPeriodDates p)) (snd (getPeriodDates p)) options d.
                       dealConfidence now (fst row))
                    / of_nat (length
                        (forecastDeals (fst (getPeriodDates p)) (snd (getPeriodDates p)) options d))))
         \<and> (forecastDeals (fst (getPeriodDates p)) (snd (getPeriodDates p)) options d = [] \<longrightarrow>
               confidence (generateForecast getPeriodDates now d p options) = 0)"
proof -
  let ?rows = "forecastDeals (fst (getPeriodDates p)) (snd (getPeriodDates p)) options d"
  have c: "confidence (generateForecast getPeriodDates now d p options)
             = calculateConfidence now (map fst ?rows)"
    by (rule generateForecast_confidence)
  have "\<forall>deal \<in> set (map fst ?rows). 0 \<le> probability deal"
    using assms by simp
  from calculateConfidence_bounds [OF this, of now]
  have b: "0 \<le> confidence (generateForecast getPeriodDates now d p options)"
    "confidence (generateForecast getPeriodDates now d p options) \<le> 100"
    by (simp_all add: c)
  have cl: "\<forall>row \<in> set ?rows. dealConfidence now (fst row) \<le> 100"
    by (simp add: dealConfidence_le_100)
  have ne: "?rows \<noteq> [] \<longrightarrow>
              confidence (generateForecast getPeriodDates now d p options) =
                js_round ((\<Sum>row\<leftarrow>?rows. dealConfidence now (fst row)) / of_nat (length ?rows))"
    by (simp add: c calculateConfidence_def confidenceScore_sum comp_def)
  have em: "?rows = [] \<longrightarrow> confidence (generateForecast getPeriodDates now d p options) = 0"
    by (simp add: c calculateConfidence_def)
  show ?thesis
    using b cl ne em by blast
qed

theorem generateForecast_confidence_witness:
  "map (\<lambda>row. probability (fst row))
     (forecastDeals (fst (exPeriodDates THIS_MONTH)) (snd (exPeriodDates THIS_MONTH)) noOptions exDb)
     = [50, 100]
   \<and> map (\<lambda>row. dealConfidence (5 * msPerDay) (fst row))
     (forecastDeals (fst (exPeriodDates THIS_MONTH)) (snd (exPeriodDates THIS_MONTH)) noOptions exDb)
     = [50, 100]
   \<and> confidence (generateForecast exPeriodDates (5 * msPerDay) exDb THIS_MONTH noOptions) = 75
   \<and> forecastDeals (fst (exPeriodDates NEXT_MONTH)) (snd (exPeriodDates NEXT_MONTH)) noOptions exDb = []
   \<and> confidence (generateForecast exPeriodDates (5 * msPerDay) exDb NEXT_MONTH noOptions) = 0"
proof -
  have w: "fst (exPeriodDates THIS_MONTH) = 0" "snd (exPeriodDates THIS_MONTH) = 100 * msPerDay"
    "fst (exPeriodDates NEXT_MONTH) = 200 * msPerDay" "snd (exPeriodDates NEXT_MONTH) = 300 * msPerDay"
    by (simp_all add: exPeriodDates_def)
  have pr: "map (\<lambda>row. probability (fst row))
              (forecastDeals (fst (exPeriodDates THIS_MONTH)) (snd (exPeriodDates THIS_MONTH)) noOptions exDb)
              = [50, 100]"
    by (simp add: w exDb_forecastDeals exDeal1_def exDeal3_def)
  have dc: "dealConfidence (5 * msPerDay) exDeal1 = 50" "dealConfidence (5 * msPerDay) exDeal3 = 100"
    by (simp_all add: dealConfidence_def daysSinceUpdate_def exDeal1_def exDeal3_def msPerDay_def)
  have h1: "\<forall>row \<in> set (forecastDeals (fst (exPeriodDates THIS_MONTH)) (snd (exPeriodDates THIS_MONTH))
                           noOptions exDb).
              0 \<le> probability (fst row) \<and> probability (fst row) \<le> 100"
    by (simp add: w exDb_forecastDeals exDeal1_def exDeal3_def)
  have h2: "\<forall>row \<in> set (forecastDeals (fst (exPeriodDates NEXT_MONTH)) (snd (exPeriodDates NEXT_MONTH))
                           noOptions exDb).
              0 \<le> probability (fst row) \<and> probability (fst row) \<le> 100"
    by (simp add: w exDb_forecastDeals_later)
  have r: "js_round 75 = 75"
    by (simp add: js_round_def floor_rat_numeral)
  show ?thesis
    using pr
      generateForecast_confidence_range
        [where getPeriodDates = exPeriodDates and p = THIS_MONTH and options = noOptions
           and d = exDb and now = "5 * msPerDay", OF h1]
      generateForecast_confidence_range
        [where getPeriodDates = exPeriodDates and p = NEXT_MONTH and options = noOptions
           and d = exDb and now = "5 * msPerDay", OF h2]
    by (simp add: w exDb_forecastDeals exDb_forecastDeals_later dc r)
qed

section \<open>Conversion rates\<close>

lemma update_subset: "set (AList.update k v al) \<subseteq> insert (k, v) (set al)"
  by (induction al) auto

lemma length_update:
  "length (AList.update k v al) = (if k \<in> fst ` set al then length al else Suc (length al))"
  by (induction al) auto

lemma fold_update_set:
  "set (fold (\<lambda>i. AList.update (K i) (E i)) js acc) \<subseteq> set acc \<union> (\<lambda>i. (K i, E i)) ` set js"
proof (induction js arbitrary: acc)
  case Nil
  show ?case by simp
next
  case (Cons j js)
  have "set (fold (\<lambda>i. AList.update (K i) (E i)) js (AList.update (K j) (E j) acc))
          \<subseteq> set (AList.update (K j) (E j) acc) \<union> (\<lambda>i. (K i, E i)) ` set js"
    by (rule Cons.IH)
  also have "\<dots> \<subseteq> insert (K j, E j) (set acc) \<union> (\<lambda>i. (K i, E i)) ` set js"
    using update_subset [of "K j" "E j" acc] by blast
  finally show ?case by auto
qed

lemma fold_update_keys:
  "fst ` set (fold (\<lambda>i. AList.update (K i) (E i)) js acc) = fst ` set acc \<union> K ` set js"
  by (induction js arbitrary: acc) (auto simp: dom_update)

lemma fold_update_other:
  "k \<notin> K ` set js \<Longrightarrow> map_of (fold (\<lambda>i. AList.update (K i) (E i)) js acc) k = map_of acc k"
  by (induction js arbitrary: acc) (simp_all add: update_conv')

lemma fold_update_map_of:
  "distinct (map K js) \<Longrightarrow> i \<in> set js
     \<Longrightarrow> map_of (fold (\<lambda>i. AList.update (K i) (E i)) js acc) (K i) = Some (E i)"
proof (induction js arbitrary: acc)
  case Nil
  then show ?case by simp
next
  case (Cons j js)
  show ?case
  proof (cases "i = j")
    case True
    have "K j \<notin> K ` set js"
      using Cons.prems(1) by simp
    then have "map_of (fold (\<lambda>i. AList.update (K i) (E i)) js (AList.update (K j) (E j) acc)) (K j)
                 = map_of (AList.update (K j) (E j) acc) (K j)"
      by (rule fold_update_other)
    then show ?thesis
      using True by (simp add: update_conv')
  next
    case False
    then have "i \<in> set js"
      using Cons.prems(2) by simp
    moreover have "distinct (map K js)"
      using Cons.prems(1) by simp
    ultimately show ?thesis
      using Cons.IH by simp
  qed
qed

lemma fold_update_length:
  "distinct (map K js) \<Longrightarrow> \<forall>i \<in> set js. K i \<notin> fst ` set acc
     \<Longrightarrow> length (fold (\<lambda>i. AList.update (K i) (E i)) js acc) = length acc + length js"
proof (induction js arbitrary: acc)
  case Nil
  show ?case by simp
next
  case (Cons j js)
  have new: "K j \<notin> fst ` set acc"
    using Cons.prems(2) by simp
  have len: "length (AList.update (K j) (E j) acc) = Suc (length acc)"
    using new by (simp add: length_update)
  have d: "distinct (map K js)" and nj: "K j \<notin> K ` set js"
    using Cons.prems(1) by simp_all
  have "\<forall>i \<in> set js. K i \<notin> fst ` set (AList.update (K j) (E j) acc)"
  proof
    fix i
    assume i: "i \<in> set js"
    then have "K i \<noteq> K j"
      using nj by (metis image_eqI)
    moreover have "K i \<notin> fst ` set acc"
      using Cons.prems(2) i by simp
    ultimately show "K i \<notin> fst ` set (AList.update (K j) (E j) acc)"
      by (simp add: dom_update)
  qed
  from Cons.IH [OF d this] len show ?case
    by simp
qed

lemma getConversionRates_fold:
  "getConversionRates passed startDate now d pid =
     fold (\<lambda>i. AList.update
                 (conversionKey (stagesOfPipeline d pid ! i) (stagesOfPipeline d pid ! (i + 1)))
                 (conversionEntryOf passed (closedDealsInWindow startDate now d pid)
                    (stagesOfPipeline d pid ! i) (stagesOfPipeline d pid ! (i + 1))))
       [0 ..< length (stagesOfPipeline d pid) - 1] []"
proof -
  have "conversionStep passed (closedDealsInWindow startDate now d pid) (stagesOfPipeline d pid)
          = (\<lambda>i. AList.update
                 (conversionKey (stagesOfPipeline d pid ! i) (stagesOfPipeline d pid ! (i + 1)))
                 (conversionEntryOf passed (closedDealsInWindow startDate now d pid)
                    (stagesOfPipeline d pid ! i) (stagesOfPipeline d pid ! (i + 1))))"
    by (intro ext) (simp add: conversionStep_def Let_def)
  then show ?thesis
    by (simp add: getConversionRates_def Let_def)
qed

lemma conversionEntryOf_fields:
  "conversionEntryOf passed ds cur nxt =
     \<lparr> conv_from = stage_name cur, conv_to = stage_name nxt,
       rate = (if passedCount passed ds cur = 0 then 0
               else (of_nat (passedCount passed ds nxt) / of_nat (passedCount passed ds cur)) * 100),
       conv_deals = passedCount passed ds cur \<rparr>"
  by (simp add: conversionEntryOf_def passedCount_def Let_def)

lemma fold_update_distinct:
  "distinct (map fst acc) \<Longrightarrow> distinct (map fst (fold (\<lambda>i. AList.update (K i) (E i)) js acc))"
  by (induction js arbitrary: acc) (simp_all add: distinct_update)

lemma specEntry_conversionEntryOf:
  "specEntry passed ds stages i = conversionEntryOf passed ds (stages ! i) (stages ! (i + 1))"
  by (simp only: specEntry_def conversionEntryOf_fields)

lemma getConversionRates_spec_fold:
  "getConversionRates passed startDate now d pid =
     fold (\<lambda>i. AList.update (pairKey (stagesOfPipeline d pid) i)
                 (specEntry passed (closedDealsInWindow startDate now d pid) (stagesOfPipeline d pid) i))
       [0 ..< length (stagesOfPipeline d pid) - 1] []"
  by (simp only: getConversionRates_fold specEntry_conversionEntryOf pairKey_def)

lemma fold_update_last:
  assumes "K i \<notin> K ` set ys"
  shows "map_of (fold (\<lambda>i. AList.update (K i) (E i)) (xs @ i # ys) acc) (K i) = Some (E i)"
proof -
  let ?f = "\<lambda>i. AList.update (K i) (E i)"
  have "map_of (fold ?f ys (?f i (fold ?f xs acc))) (K i) = map_of (?f i (fold ?f xs acc)) (K i)"
    using assms by (rule fold_update_other)
  then show ?thesis
    by (simp add: update_conv')
qed

lemma upt_split_at:
  assumes "i < n"
  shows "[0 ..< n] = [0 ..< i] @ i # [Suc i ..< n]"
proof -
  have "[0 ..< i + (n - i)] = [0 ..< i] @ [i ..< i + (n - i)]"
    by (rule upt_add_eq_append) simp
  moreover have "i + (n - i) = n"
    using assms by simp
  ultimately have "[0 ..< n] = [0 ..< i] @ [i ..< n]"
    by simp
  also have "[i ..< n] = i # [Suc i ..< n]"
    using assms by (rule upt_conv_Cons)
  finally show ?thesis .
qed

lemma fold_update_upt_last:
  assumes "i < n" and "\<forall>j. i < j \<and> j < n \<longrightarrow> K j \<noteq> K i"
  shows "map_of (fold (\<lambda>i. AList.update (K i) (E i)) [0 ..< n] acc) (K i) = Some (E i)"
proof -
  have "K i \<notin> K ` set [Suc i ..< n]"
  proof
    assume "K i \<in> K ` set [Suc i ..< n]"
    then obtain j where "j \<in> set [Suc i ..< n]" and "K i = K j"
      by blast
    then have "i < j \<and> j < n" and "K j = K i"
      by simp_all
    with assms(2) show False
      by blast
  qed
  then have "map_of (fold (\<lambda>i. AList.update (K i) (E i)) ([0 ..< i] @ i # [Suc i ..< n]) acc) (K i)
               = Some (E i)"
    by (rule fold_update_last)
  then show ?thesis
    by (simp only: upt_split_at [OF assms(1), symmetric])
qed

lemma stagesOfPipeline_sorted:
  "sorted (map sortOrder (stagesOfPipeline d pid))
   \<and> set (stagesOfPipeline d pid) = {s \<in> set (pipelineStages d). stage_pipelineId s = pid}
   \<and> length (stagesOfPipeline d pid)
       = length (filter (\<lambda>s. stage_pipelineId s = pid) (pipelineStages d))"
  by (auto simp: stagesOfPipeline_def)

text \<open>
  C9, as the code has it. The stages are those of the pipeline, by ascending sort order.
  Every entry of the result is the entry of some adjacent pair of these stages, under that
  pair's key, with the rate the specification gives; so the rate of an entry is 0 whenever
  no deal passed through its earlier stage. The result holds exactly one entry per key of
  an adjacent pair. The entry of a pair is found under its key whenever no later pair has
  the same key: a pair assigned later replaces an earlier pair with the same key. When the
  keys of the adjacent pairs are pairwise distinct, the result has one entry per adjacent
  pair.
\<close>

theorem getConversionRates_entries:
  "(\<forall>e \<in> set (getConversionRates passed startDate now d pid).
      (\<exists>i. i + 1 < length (stagesOfPipeline d pid)
           \<and> e = (pairKey (stagesOfPipeline d pid) i,
                   specEntry passed (closedDealsInWindow startDate now d pid) (stagesOfPipeline d pid) i))
      \<and> (conv_deals (snd e) = 0 \<longrightarrow> rate (snd e) = 0))
   \<and> distinct (map fst (getConversionRates passed startDate now d pid))
   \<and> fst ` set (getConversionRates passed startDate now d pid)
       = pairKey (stagesOfPipeline d pid) ` {i. i + 1 < length (stagesOfPipeline d pid)}
   \<and> (\<forall>i. i + 1 < length (stagesOfPipeline d pid)
           \<and> (\<forall>j. i < j \<and> j + 1 < length (stagesOfPipeline d pid)
                  \<longrightarrow> pairKey (stagesOfPipeline d pid) j \<noteq> pairKey (stagesOfPipeline d pid) i)
         \<longrightarrow> map_of (getConversionRates passed startDate now d pid) (pairKey (stagesOfPipeline d pid) i)
               = Some (specEntry passed (closedDealsInWindow startDate now d pid)
                         (stagesOfPipeline d pid) i))
   \<and> (distinct (map (pairKey (stagesOfPipeline d pid)) [0 ..< length (stagesOfPipeline d pid) - 1]) \<longrightarrow>
        length (getConversionRates passed startDate now d pid) = length (stagesOfPipeline d pid) - 1
        \<and> (\<forall>i. i + 1 < length (stagesOfPipeline d pid) \<longrightarrow>
              map_of (getConversionRates passed startDate now d pid) (pairKey (stagesOfPipeline d pid) i)
                = Some (specEntry passed (closedDealsInWindow startDate now d pid)
                          (stagesOfPipeline d pid) i)))
   \<and> sorted (map sortOrder (stagesOfPipeline d pid))
   \<and> set (stagesOfPipeline d pid) = {s \<in> set (pipelineStages d). stage_pipelineId s = pid}
   \<and> length (stagesOfPipeline d pid)
       = length (filter (\<lambda>s. stage_pipelineId s = pid) (pipelineStages d))"
proof -
  let ?stages = "stagesOfPipeline d pid"
  let ?ds = "closedDealsInWindow startDate now d pid"
  let ?R = "getConversionRates passed startDate now d pid"
  let ?js = "[0 ..< length ?stages - 1]"
  have R: "?R = fold (\<lambda>i. AList.update (pairKey ?stages i) (specEntry passed ?ds ?stages i)) ?js []"
    by (rule getConversionRates_spec_fold)
  have a: "\<forall>e \<in> set ?R.
             (\<exists>i. i + 1 < length ?stages \<and> e = (pairKey ?stages i, specEntry passed ?ds ?stages i))
             \<and> (conv_deals (snd e) = 0 \<longrightarrow> rate (snd e) = 0)"
  proof
    fix e
    assume "e \<in> set ?R"
    then have "e \<in> (\<lambda>i. (pairKey ?stages i, specEntry passed ?ds ?stages i)) ` set ?js"
      using fold_update_set [of "pairKey ?stages" "specEntry passed ?ds ?stages" ?js "[]"]
      unfolding R by auto
    then obtain i where i: "i \<in> set ?js"
      and e: "e = (pairKey ?stages i, specEntry passed ?ds ?stages i)"
      by blast
    have "i + 1 < length ?stages"
      using i by auto
    moreover have "conv_deals (snd e) = 0 \<longrightarrow> rate (snd e) = 0"
      by (simp add: e specEntry_def)
    ultimately show "(\<exists>i. i + 1 < length ?stages
                          \<and> e = (pairKey ?stages i, specEntry passed ?ds ?stages i))
                     \<and> (conv_deals (snd e) = 0 \<longrightarrow> rate (snd e) = 0)"
      using e by blast
  qed
  have b: "distinct (map fst ?R)"
    unfolding R by (rule fold_update_distinct) simp
  have ix: "set ?js = {i. i + 1 < length ?stages}"
    by auto
  have k: "fst ` set ?R = pairKey ?stages ` {i. i + 1 < length ?stages}"
    unfolding R by (simp only: fold_update_keys ix) simp
  have l: "\<forall>i. i + 1 < length ?stages
                \<and> (\<forall>j. i < j \<and> j + 1 < length ?stages \<longrightarrow> pairKey ?stages j \<noteq> pairKey ?stages i)
              \<longrightarrow> map_of ?R (pairKey ?stages i) = Some (specEntry passed ?ds ?stages i)"
  proof (intro allI impI)
    fix i
    assume h: "i + 1 < length ?stages
                \<and> (\<forall>j. i < j \<and> j + 1 < length ?stages \<longrightarrow> pairKey ?stages j \<noteq> pairKey ?stages i)"
    then have lt: "i < length ?stages - 1"
      by auto
    have later: "\<forall>j. i < j \<and> j < length ?stages - 1 \<longrightarrow> pairKey ?stages j \<noteq> pairKey ?stages i"
      using h by auto
    from fold_update_upt_last [where K = "pairKey ?stages", OF lt later]
    show "map_of ?R (pairKey ?stages i) = Some (specEntry passed ?ds ?stages i)"
      unfolding R .
  qed
  have c: "distinct (map (pairKey ?stages) ?js) \<longrightarrow>
             length ?R = length ?stages - 1
             \<and> (\<forall>i. i + 1 < length ?stages \<longrightarrow>
                   map_of ?R (pairKey ?stages i) = Some (specEntry passed ?ds ?stages i))"
  proof (intro impI conjI allI)
    assume dk: "distinct (map (pairKey ?stages) ?js)"
    have "length (fold (\<lambda>i. AList.update (pairKey ?stages i) (specEntry passed ?ds ?stages i)) ?js [])
            = length ([] :: (string \<times> conversionEntry) list) + length ?js"
      by (rule fold_update_length [OF dk]) simp
    then show "length ?R = length ?stages - 1"
      unfolding R by simp
  next
    fix i
    assume dk: "distinct (map (pairKey ?stages) ?js)" and "i + 1 < length ?stages"
    then have "i \<in> set ?js"
      by auto
    from fold_update_map_of [OF dk this]
    show "map_of ?R (pairKey ?stages i) = Some (specEntry passed ?ds ?stages i)"
      unfolding R .
  qed
  show ?thesis
    using a b k l c stagesOfPipeline_sorted [of d pid] by blast
qed

lemma exDb_stages_p1: "stagesOfPipeline exDb ''p1'' = take 3 exStages"
  by (simp add: stagesOfPipeline_def exDb_def exStages_def)

lemma exDb_stages_p2: "stagesOfPipeline exDb ''p2'' = drop 3 exStages"
  by (simp add: stagesOfPipeline_def exDb_def exStages_def)

lemma upt_0_2: "[0 ..< 2] = [0, Suc 0]"
  by (simp add: upt_rec)

lemma exDbR_stages_p2: "stagesOfPipeline exDbR ''p2'' = drop 3 exStages"
  by (simp add: stagesOfPipeline_def exDbR_def exDb_def exStages_def)

text \<open>
  The claim as stated fails when two adjacent pairs share a key: pipeline \<open>p2\<close> has three
  stages named Review, hence two adjacent pairs, both with key Review_to_Review, and the
  result has a single entry. In the second store that entry is the one of the later pair
  (rate 100, one deal); the entry of the first pair (rate 0, no deal) is gone.
\<close>

theorem getConversionRates_one_entry_per_pair_counterexample:
  "map stage_name (stagesOfPipeline exDb ''p2'') = [''Review'', ''Review'', ''Review'']
   \<and> map sortOrder (stagesOfPipeline exDb ''p2'') = [0, 1, 2]
   \<and> length (stagesOfPipeline exDb ''p2'') - 1 = 2
   \<and> map fst (getConversionRates (\<lambda>deal sid. True) 0 (5 * msPerDay) exDb ''p2'') = [''Review_to_Review'']
   \<and> length (getConversionRates (\<lambda>deal sid. True) 0 (5 * msPerDay) exDb ''p2'') = 1
   \<and> getConversionRates (\<lambda>deal sid. sid \<noteq> ''r1'') 0 (5 * msPerDay) exDbR ''p2''
       = [(''Review_to_Review'',
           \<lparr> conv_from = ''Review'', conv_to = ''Review'', rate = 100, conv_deals = 1 \<rparr>)]"
proof -
  have dsR: "closedDealsInWindow 0 (5 * msPerDay) exDbR ''p2'' = [exDealR]"
    by (simp add: closedDealsInWindow_def exDbR_def exDb_def exDealR_def msPerDay_def)
  have a: "getConversionRates (\<lambda>deal sid. sid \<noteq> ''r1'') 0 (5 * msPerDay) exDbR ''p2''
       = [(''Review_to_Review'',
           \<lparr> conv_from = ''Review'', conv_to = ''Review'', rate = 100, conv_deals = 1 \<rparr>)]"
    by (simp add: getConversionRates_def conversionStep_def conversionKey_def conversionEntryOf_def
        Let_def dsR exDbR_stages_p2 exStages_def upt_0_2)
  have b: "map stage_name (stagesOfPipeline exDb ''p2'') = [''Review'', ''Review'', ''Review'']
   \<and> map sortOrder (stagesOfPipeline exDb ''p2'') = [0, 1, 2]
   \<and> length (stagesOfPipeline exDb ''p2'') - 1 = 2
   \<and> map fst (getConversionRates (\<lambda>deal sid. True) 0 (5 * msPerDay) exDb ''p2'') = [''Review_to_Review'']
   \<and> length (getConversionRates (\<lambda>deal sid. True) 0 (5 * msPerDay) exDb ''p2'') = 1"
    by (simp add: getConversionRates_def conversionStep_def conversionKey_def Let_def
        exDb_stages_p2 exStages_def upt_0_2)
  show ?thesis
    using a b by simp
qed

theorem getConversionRates_entries_witness:
  "map (pairKey (stagesOfPipeline exDb ''p1'')) [0 ..< length (stagesOfPipeline exDb ''p1'') - 1]
     = [''Qualified_to_Proposal'', ''Proposal_to_Closed Won'']
   \<and> length (getConversionRates (\<lambda>deal sid. sid \<noteq> ''s1'') 0 (5 * msPerDay) exDb ''p1'') = 2
   \<and> map_of (getConversionRates (\<lambda>deal sid. sid \<noteq> ''s1'') 0 (5 * msPerDay) exDb ''p1'')
        ''Qualified_to_Proposal''
       = Some \<lparr> conv_from = ''Qualified'', conv_to = ''Proposal'', rate = 0, conv_deals = 0 \<rparr>
   \<and> map_of (getConversionRates (\<lambda>deal sid. sid \<noteq> ''s1'') 0 (5 * msPerDay) exDb ''p1'')
        ''Proposal_to_Closed Won''
       = Some \<lparr> conv_from = ''Proposal'', conv_to = ''Closed Won'', rate = 100, conv_deals = 1 \<rparr>
   \<and> map (pairKey (stagesOfPipeline exDbR ''p2'')) [0 ..< length (stagesOfPipeline exDbR ''p2'') - 1]
     = [''Review_to_Review'', ''Review_to_Review'']
   \<and> specEntry (\<lambda>deal sid. sid \<noteq> ''r1'') (closedDealsInWindow 0 (5 * msPerDay) exDbR ''p2'')
        (stagesOfPipeline exDbR ''p2'') 0
       = \<lparr> conv_from = ''Review'', conv_to = ''Review'', rate = 0, conv_deals = 0 \<rparr>
   \<and> specEntry (\<lambda>deal sid. sid \<noteq> ''r1'') (closedDealsInWindow 0 (5 * msPerDay) exDbR ''p2'')
        (stagesOfPipeline exDbR ''p2'') (Suc 0)
       = \<lparr> conv_from = ''Review'', conv_to = ''Review'', rate = 100, conv_deals = 1 \<rparr>
   \<and> map_of (getConversionRates (\<lambda>deal sid. sid \<noteq> ''r1'') 0 (5 * msPerDay) exDbR ''p2'')
        ''Review_to_Review''
       = Some \<lparr> conv_from = ''Review'', conv_to = ''Review'', rate = 100, conv_deals = 1 \<rparr>"
proof -
  let ?stages = "stagesOfPipeline exDb ''p1''"
  let ?passed = "\<lambda>deal sid. sid \<noteq> ''s1''"
  let ?stagesR = "stagesOfPipeline exDbR ''p2''"
  let ?passedR = "\<lambda>deal sid. sid \<noteq> ''r1''"
  have n: "length ?stages - 1 = 2" "length ?stages - Suc 0 = 2"
    by (simp_all add: exDb_stages_p1 exStages_def)
  have k: "pairKey ?stages 0 = ''Qualified_to_Proposal''"
    "pairKey ?stages (Suc 0) = ''Proposal_to_Closed Won''"
    by (simp_all add: pairKey_def conversionKey_def exDb_stages_p1 exStages_def)
  have ks: "map (pairKey ?stages) [0 ..< length ?stages - 1]
              = [''Qualified_to_Proposal'', ''Proposal_to_Closed Won'']"
    by (simp add: n upt_0_2 k)
  have dk: "distinct (map (pairKey ?stages) [0 ..< length ?stages - 1])"
    unfolding ks by simp
  have ds: "closedDealsInWindow 0 (5 * msPerDay) exDb ''p1'' = [exDeal2]"
    by (simp add: closedDealsInWindow_def exDb_def exDeal1_def exDeal2_def exDeal3_def msPerDay_def)
  have e: "specEntry ?passed [exDeal2] ?stages 0
             = \<lparr> conv_from = ''Qualified'', conv_to = ''Proposal'', rate = 0, conv_deals = 0 \<rparr>"
    "specEntry ?passed [exDeal2] ?stages (Suc 0)
             = \<lparr> conv_from = ''Proposal'', conv_to = ''Closed Won'', rate = 100, conv_deals = 1 \<rparr>"
    by (simp_all add: specEntry_def passedCount_def exDb_stages_p1 exStages_def)
  have l: "(0::nat) + 1 < length ?stages" "Suc 0 + 1 < length ?stages"
    by (simp_all add: exDb_stages_p1 exStages_def)
  from getConversionRates_entries [of ?passed 0 "5 * msPerDay" exDb "''p1''"] dk
  have len: "length (getConversionRates ?passed 0 (5 * msPerDay) exDb ''p1'') = length ?stages - 1"
    and m: "\<forall>i. i + 1 < length ?stages \<longrightarrow>
              map_of (getConversionRates ?passed 0 (5 * msPerDay) exDb ''p1'') (pairKey ?stages i)
                = Some (specEntry ?passed (closedDealsInWindow 0 (5 * msPerDay) exDb ''p1'') ?stages i)"
    by blast+
  have first: "length (getConversionRates ?passed 0 (5 * msPerDay) exDb ''p1'') = 2"
    "map_of (getConversionRates ?passed 0 (5 * msPerDay) exDb ''p1'') ''Qualified_to_Proposal''
       = Some \<lparr> conv_from = ''Qualified'', conv_to = ''Proposal'', rate = 0, conv_deals = 0 \<rparr>"
    "map_of (getConversionRates ?passed 0 (5 * msPerDay) exDb ''p1'') ''Proposal_to_Closed Won''
       = Some \<lparr> conv_from = ''Proposal'', conv_to = ''Closed Won'', rate = 100, conv_deals = 1 \<rparr>"
    using len m [rule_format, OF l(1)] m [rule_format, OF l(2)]
    by (simp_all add: n k ds e)
  have nR: "length ?stagesR = 3" "length ?stagesR - 1 = 2" "length ?stagesR - Suc 0 = 2"
    by (simp_all add: exDbR_stages_p2 exStages_def)
  have kR: "pairKey ?stagesR 0 = ''Review_to_Review''" "pairKey ?stagesR (Suc 0) = ''Review_to_Review''"
    by (simp_all add: pairKey_def conversionKey_def exDbR_stages_p2 exStages_def)
  have ksR: "map (pairKey ?stagesR) [0 ..< length ?stagesR - 1]
               = [''Review_to_Review'', ''Review_to_Review'']"
    by (simp add: nR upt_0_2 kR)
  have dsR: "closedDealsInWindow 0 (5 * msPerDay) exDbR ''p2'' = [exDealR]"
    by (simp add: closedDealsInWindow_def exDbR_def exDb_def exDealR_def msPerDay_def)
  have eR: "specEntry ?passedR [exDealR] ?stagesR 0
              = \<lparr> conv_from = ''Review'', conv_to = ''Review'', rate = 0, conv_deals = 0 \<rparr>"
    "specEntry ?passedR [exDealR] ?stagesR (Suc 0)
              = \<lparr> conv_from = ''Review'', conv_to = ''Review'', rate = 100, conv_deals = 1 \<rparr>"
    by (simp_all add: specEntry_def passedCount_def exDbR_stages_p2 exStages_def)
  have last: "Suc 0 + 1 < length ?stagesR
                \<and> (\<forall>j. Suc 0 < j \<and> j + 1 < length ?stagesR
                       \<longrightarrow> pairKey ?stagesR j \<noteq> pairKey ?stagesR (Suc 0))"
    unfolding nR by auto
  from getConversionRates_entries [of ?passedR 0 "5 * msPerDay" exDbR "''p2''"]
  have w: "\<forall>i. i + 1 < length ?stagesR
                 \<and> (\<forall>j. i < j \<and> j + 1 < length ?stagesR
                        \<longrightarrow> pairKey ?stagesR j \<noteq> pairKey ?stagesR i)
               \<longrightarrow> map_of (getConversionRates ?passedR 0 (5 * msPerDay) exDbR ''p2'') (pairKey ?stagesR i)
                     = Some (specEntry ?passedR (closedDealsInWindow 0 (5 * msPerDay) exDbR ''p2'')
                               ?stagesR i)"
    by blast
  have second: "map_of (getConversionRates ?passedR 0 (5 * msPerDay) exDbR ''p2'') ''Review_to_Review''
                  = Some \<lparr> conv_from = ''Review'', conv_to = ''Review'', rate = 100, conv_deals = 1 \<rparr>"
    using w [rule_format, OF last] by (simp add: kR dsR eR)
  show ?thesis
    using ks first ksR second by (simp add: dsR eR)
qed

section \<open>Contact lifecycle\<close>

lemma isValidProgression_graph:
  "isValidProgression current next = ((current, next) \<in> progressionGraph)"
  by (cases current; cases "next") (simp_all add: isValidProgression_def progressionGraph_def)

lemma progress_ok:
  assumes "findContactById d cid = Some c" and "isValidProgression (lifecycleStage c) t"
  shows "progressLifecycleStage now d cid t reason =
           Inr (lifecyclePatch now t c,
                d\<lparr> contacts := updateWhere (\<lambda>r. contact_id r = cid) (lifecyclePatch now t) (contacts d),
                   activities := activities d @ [LIFECYCLE_CHANGE cid (lifecycleStage c) t reason] \<rparr>)"
  using assms by (simp add: progressLifecycleStage_def Let_def)

lemma progress_fail:
  assumes "findContactById d cid = Some c" and "\<not> isValidProgression (lifecycleStage c) t"
  shows "progressLifecycleStage now d cid t reason = Inl (InvalidProgression (lifecycleStage c) t)"
  using assms by (simp add: progressLifecycleStage_def Let_def)

text \<open>
  C3. For an existing contact \<open>c\<close> and a target stage \<open>t\<close>: when the edge from
  \<open>c\<close>'s stage to \<open>t\<close> is not in the progression graph of the specification,
  \<open>progressLifecycleStage\<close> returns the error with code INVALID_PROGRESSION (an error
  result carries no new store: nothing is written); when the edge is in the graph it
  succeeds, and the contact it returns and stores has lifecycle stage \<open>t\<close> and the
  status the fixed mapping gives for \<open>t\<close>.
\<close>

theorem progressLifecycleStage_follows_graph:
  assumes "findContactById d cid = Some c"
  shows "((lifecycleStage c, t) \<notin> progressionGraph \<longrightarrow>
            progressLifecycleStage now d cid t reason = Inl (InvalidProgression (lifecycleStage c) t)
            \<and> code (InvalidProgression (lifecycleStage c) t) = ''INVALID_PROGRESSION'')
         \<and> ((lifecycleStage c, t) \<in> progressionGraph \<longrightarrow>
            (\<exists>c' d'. progressLifecycleStage now d cid t reason = Inr (c', d')
               \<and> findContactById d' cid = Some c'
               \<and> lifecycleStage c' = t
               \<and> status c' =
                   (case t of
                      SUBSCRIBER \<Rightarrow> ST_LEAD
                    | LEAD \<Rightarrow> ST_LEAD
                    | MARKETING_QUALIFIED \<Rightarrow> ST_PROSPECT
                    | SALES_QUALIFIED \<Rightarrow> ST_QUALIFIED
                    | OPPORTUNITY \<Rightarrow> ST_QUALIFIED
                    | CUSTOMER \<Rightarrow> ST_CUSTOMER
                    | EVANGELIST \<Rightarrow> ST_CUSTOMER)))"
proof (intro conjI impI)
  assume "(lifecycleStage c, t) \<notin> progressionGraph"
  then have "\<not> isValidProgression (lifecycleStage c) t"
    by (simp add: isValidProgression_graph)
  from progress_fail [OF assms this]
  show "progressLifecycleStage now d cid t reason = Inl (InvalidProgression (lifecycleStage c) t)" .
next
  show "code (InvalidProgression (lifecycleStage c) t) = ''INVALID_PROGRESSION''"
    by (simp add: InvalidProgression_def)
next
  assume "(lifecycleStage c, t) \<in> progressionGraph"
  then have v: "isValidProgression (lifecycleStage c) t"
    by (simp add: isValidProgression_graph)
  let ?c' = "lifecyclePatch now t c"
  let ?d' = "d\<lparr> contacts := updateWhere (\<lambda>r. contact_id r = cid) (lifecyclePatch now t) (contacts d),
                 activities := activities d @ [LIFECYCLE_CHANGE cid (lifecycleStage c) t reason] \<rparr>"
  have r: "progressLifecycleStage now d cid t reason = Inr (?c', ?d')"
    by (rule progress_ok [OF assms v])
  have s: "findContactById ?d' cid = Some ?c'"
    by (rule contact_stored [OF assms])
  have lc: "lifecycleStage ?c' = t"
    by (simp add: lifecyclePatch_def)
  have st: "status ?c' =
              (case t of
                 SUBSCRIBER \<Rightarrow> ST_LEAD
               | LEAD \<Rightarrow> ST_LEAD
               | MARKETING_QUALIFIED \<Rightarrow> ST_PROSPECT
               | SALES_QUALIFIED \<Rightarrow> ST_QUALIFIED
               | OPPORTUNITY \<Rightarrow> ST_QUALIFIED
               | CUSTOMER \<Rightarrow> ST_CUSTOMER
               | EVANGELIST \<Rightarrow> ST_CUSTOMER)"
    by (cases t) (simp_all add: lifecyclePatch_def)
  show "\<exists>c' d'. progressLifecycleStage now d cid t reason = Inr (c', d')
               \<and> findContactById d' cid = Some c'
               \<and> lifecycleStage c' = t
               \<and> status c' =
                   (case t of
                      SUBSCRIBER \<Rightarrow> ST_LEAD
                    | LEAD \<Rightarrow> ST_LEAD
                    | MARKETING_QUALIFIED \<Rightarrow> ST_PROSPECT
                    | SALES_QUALIFIED \<Rightarrow> ST_QUALIFIED
                    | OPPORTUNITY \<Rightarrow> ST_QUALIFIED
                    | CUSTOMER \<Rightarrow> ST_CUSTOMER
                    | EVANGELIST \<Rightarrow> ST_CUSTOMER)"
    using r s lc st by blast
qed

theorem progressLifecycleStage_witness:
  "findContactById exDb ''c1'' = Some exContact
   \<and> (lifecycleStage exContact, SALES_QUALIFIED) \<in> progressionGraph
   \<and> (\<exists>c' d'. progressLifecycleStage 7 exDb ''c1'' SALES_QUALIFIED None = Inr (c', d')
         \<and> findContactById d' ''c1'' = Some c'
         \<and> lifecycleStage c' = SALES_QUALIFIED
         \<and> status c' = ST_QUALIFIED)
   \<and> (lifecycleStage exContact, CUSTOMER) \<notin> progressionGraph
   \<and> progressLifecycleStage 7 exDb ''c1'' CUSTOMER None = Inl (InvalidProgression LEAD CUSTOMER)
   \<and> code (InvalidProgression LEAD CUSTOMER) = ''INVALID_PROGRESSION''"
proof -
  have a: "findContactById exDb ''c1'' = Some exContact"
    by (simp add: findContactById_def exDb_def exContact_def)
  have l: "lifecycleStage exContact = LEAD"
    by (simp add: exContact_def)
  have g1: "(LEAD, SALES_QUALIFIED) \<in> progressionGraph"
    and g2: "(LEAD, CUSTOMER) \<notin> progressionGraph"
    by (simp_all add: progressionGraph_def)
  show ?thesis
    using a g1 g2
      progressLifecycleStage_follows_graph [OF a, of SALES_QUALIFIED 7 None]
      progressLifecycleStage_follows_graph [OF a, of CUSTOMER 7 None]
    by (simp add: l)
qed

text \<open>
  C10. For a contact id the store does not hold, \<open>calculateNextActions\<close> returns the
  empty list (no error); for every contact it returns at most one action.
\<close>

theorem calculateNextActions_at_most_one:
  "(findContactById d cid = None \<longrightarrow> calculateNextActions daysSince d cid = [])
   \<and> length (calculateNextActions daysSince d cid) \<le> 1"
  by (simp add: calculateNextActions_def Let_def split: option.split lifecycleStage.split)

theorem calculateNextActions_witness:
  "findContactById exDb ''nobody'' = None
   \<and> calculateNextActions (\<lambda>t. 10) exDb ''nobody'' = []
   \<and> findContactById exDb ''c1'' = Some exContact
   \<and> length (calculateNextActions (\<lambda>t. 10) exDb ''c1'') = 1"
proof -
  have a: "findContactById exDb ''nobody'' = None"
    by (simp add: findContactById_def exDb_def exContact_def)
  have b: "length (calculateNextActions (\<lambda>t. 10) exDb ''c1'') = 1"
    by (simp add: calculateNextActions_def findContactById_def exDb_def exContact_def)
  have c: "findContactById exDb ''c1'' = Some exContact"
    by (simp add: findContactById_def exDb_def exContact_def)
  show ?thesis
    using a b c calculateNextActions_at_most_one [of exDb "''nobody''" "\<lambda>t. 10"]
    by simp
qed

end
